theory Spec2Isabelle
  imports
    Complex_Main
    "HOL-Library.Multiset"
    "HOL-Library.Char_ord"
    "HOL-Library.List_Lexorder"
    "HOL-Library.Sublist"
begin

section \<open>Python values\<close>

text \<open>
  Products, criteria and results are dictionaries decoded from JSON. A field value is an
  integer, a float, a string or \<^verbatim>\<open>None\<close>; a missing key is \<open>None\<close> of the option type.
  \<open>PFloat r\<close> is the float whose value is the real number \<open>r\<close>. Infinities and NaN are
  not values of the model, and an operation on floats whose result is infinite is
  outside it; the default \<^verbatim>\<open>float('inf')\<close> of a missing sort key is the separate
  constructor \<open>KeyInf\<close>. A string is the sequence of the UTF-8 bytes of the Python
  string: \<open>@\<close> is concatenation, and the lexicographic order of the bytes is Python's
  order of the code points.
\<close>

datatype pyval = PInt int | PFloat real | PStr string | PNone

datatype py_error = TypeError | AttributeError | OverflowError | ZeroDivisionError

type_synonym 'a result = "py_error + 'a"

text \<open>\<^verbatim>\<open>d.get(key, default)\<close> on a field that may be missing.\<close>

definition dict_get :: "'a option \<Rightarrow> 'a \<Rightarrow> 'a" where
  "dict_get field dflt = (case field of None \<Rightarrow> dflt | Some v \<Rightarrow> v)"

fun num_of :: "pyval \<Rightarrow> real option" where
  "num_of (PInt i) = Some (of_int i)"
| "num_of (PFloat r) = Some r"
| "num_of (PStr s) = None"
| "num_of PNone = None"

text \<open>
  \<^verbatim>\<open>a < b\<close> and \<^verbatim>\<open>a <= b\<close>: numbers compare by value (an int with a float too), strings
  lexicographically by character code, and every other pair raises \<^verbatim>\<open>TypeError\<close>
  (\<^verbatim>\<open>None < None\<close> included).
\<close>

fun py_lt :: "pyval \<Rightarrow> pyval \<Rightarrow> bool result" where
  "py_lt (PStr s) (PStr t) = Inr (s < t)"
| "py_lt a b = (case (num_of a, num_of b) of
                 (Some x, Some y) \<Rightarrow> Inr (x < y)
               | _ \<Rightarrow> Inl TypeError)"

fun py_le :: "pyval \<Rightarrow> pyval \<Rightarrow> bool result" where
  "py_le (PStr s) (PStr t) = Inr (s \<le> t)"
| "py_le a b = (case (num_of a, num_of b) of
                 (Some x, Some y) \<Rightarrow> Inr (x \<le> y)
               | _ \<Rightarrow> Inl TypeError)"

text \<open>Truth value of a value in \<^verbatim>\<open>if v:\<close>.\<close>

fun py_truthy :: "pyval \<Rightarrow> bool" where
  "py_truthy (PInt i) = (i \<noteq> 0)"
| "py_truthy (PFloat r) = (r \<noteq> 0)"
| "py_truthy (PStr s) = (s \<noteq> [])"
| "py_truthy PNone = False"

section \<open>Data model\<close>

record product =
  title :: "pyval option"
  price :: "pyval option"
  brand :: "pyval option"
  model :: "pyval option"
  url :: "pyval option"
  shop :: "pyval option"
  platform :: "pyval option"

record criteria =
  c_brand :: "pyval option"
  c_model :: "pyval option"
  c_max_price :: "pyval option"

section \<open>Strings\<close>

text \<open>\<^verbatim>\<open>str(i)\<close> of an integer: its decimal digits, with a sign when negative.\<close>

fun digits :: "nat \<Rightarrow> string" where
  "digits n =
     (if n < 10 then [''0123456789'' ! n]
      else digits (n div 10) @ [''0123456789'' ! (n mod 10)])"

declare digits.simps [simp del]

definition str_of_int :: "int \<Rightarrow> string" where
  "str_of_int i = (if i < 0 then CHR ''-'' # digits (nat (- i)) else digits (nat i))"

text \<open>
  The builtins of Python that are not computed here are parameters of the model, and
  every theorem holds whatever they are:
  \<^item> \<open>float_repr\<close>: the text of a float, Python's shortest round-trip \<^verbatim>\<open>repr\<close>;
  \<^item> \<open>str_lower\<close> and \<open>str_strip\<close>: \<^verbatim>\<open>str.lower()\<close> and \<^verbatim>\<open>str.strip()\<close>, which follow the
    Unicode tables of letters and of whitespace;
  \<^item> \<open>nearest\<close>: the float nearest to a real number in the range of the floats, ties
    going to the even mantissa, which is the result of every single operation on floats;
  \<^item> \<open>float_sum\<close>: \<^verbatim>\<open>sum(xs)\<close> for numbers of which one at least is a float; the order and
    the compensation of its additions depend on the version of the interpreter.
\<close>

record builtins =
  float_repr :: "real \<Rightarrow> string"
  str_lower :: "string \<Rightarrow> string"
  str_strip :: "string \<Rightarrow> string"
  nearest :: "real \<Rightarrow> real"
  float_sum :: "pyval list \<Rightarrow> pyval result"

text \<open>\<^verbatim>\<open>str(v)\<close>, as an f-string formats a value.\<close>

fun py_str :: "builtins \<Rightarrow> pyval \<Rightarrow> string" where
  "py_str py (PInt i) = str_of_int i"
| "py_str py (PFloat r) = float_repr py r"
| "py_str py (PStr s) = s"
| "py_str py PNone = ''None''"

section \<open>PriceValidator: price filter\<close>

text \<open>
  \<^verbatim>\<open>validate_price\<close>: \<^verbatim>\<open>return 0 < price <= max_price\<close> inside
  \<^verbatim>\<open>try ... except (TypeError, ValueError): return False\<close>. The chained comparison evaluates
  \<^verbatim>\<open>price <= max_price\<close> only when \<^verbatim>\<open>0 < price\<close> is true.
\<close>

definition chained_0_lt_le :: "pyval \<Rightarrow> pyval \<Rightarrow> bool result" where
  "chained_0_lt_le p m =
     (case py_lt (PInt 0) p of
        Inl e \<Rightarrow> Inl e
      | Inr b \<Rightarrow> if b then py_le p m else Inr False)"

definition validate_price :: "pyval \<Rightarrow> pyval \<Rightarrow> bool" where
  "validate_price p max_price =
     (case chained_0_lt_le p max_price of
        Inr b \<Rightarrow> b
      | Inl e \<Rightarrow> False)"

text \<open>\<^verbatim>\<open>filter_by_price\<close>: the loop appends the products that validate.\<close>

fun filter_by_price_loop :: "product list \<Rightarrow> pyval \<Rightarrow> product list \<Rightarrow> product list" where
  "filter_by_price_loop [] max_price filtered = filtered"
| "filter_by_price_loop (p # ps) max_price filtered =
     (if validate_price (dict_get (price p) (PInt 0)) max_price
      then filter_by_price_loop ps max_price (filtered @ [p])
      else filter_by_price_loop ps max_price filtered)"

definition filter_by_price :: "product list \<Rightarrow> pyval \<Rightarrow> product list" where
  "filter_by_price products max_price = filter_by_price_loop products max_price []"

text \<open>
  Step 1 of \<^verbatim>\<open>FilterAgent.execute\<close>:
  \<^verbatim>\<open>max_price = search_criteria.get('max_price')\<close>, then
  \<^verbatim>\<open>if max_price: products = filter_by_price(products, max_price)\<close>.
\<close>

definition price_filter_step :: "criteria \<Rightarrow> product list \<Rightarrow> product list" where
  "price_filter_step sc products =
     (let max_price = dict_get (c_max_price sc) PNone in
      if py_truthy max_price then filter_by_price products max_price else products)"

text \<open>The price of a product lies in the budget: both are numbers and \<open>0 < price \<le> max_price\<close>.\<close>

definition price_in_budget :: "pyval \<Rightarrow> product \<Rightarrow> bool" where
  "price_in_budget max_price p =
     (case (Option.bind (price p) num_of, num_of max_price) of
        (Some x, Some m) \<Rightarrow> 0 < x \<and> x \<le> m
      | _ \<Rightarrow> False)"

section \<open>FilterAgent: deduplication\<close>

text \<open>
  \<^verbatim>\<open>title = product.get('title', '').lower().strip()\<close>: a title that is not a string has
  no method \<^verbatim>\<open>lower\<close>, and the call raises \<^verbatim>\<open>AttributeError\<close>.
\<close>

definition title_lower_strip :: "builtins \<Rightarrow> product \<Rightarrow> string result" where
  "title_lower_strip py p =
     (case dict_get (title p) (PStr []) of
        PStr s \<Rightarrow> Inr (str_strip py (str_lower py s))
      | _ \<Rightarrow> Inl AttributeError)"

text \<open>\<^verbatim>\<open>key = f"{title}_{price}"\<close> with \<^verbatim>\<open>price = product.get('price', 0)\<close>.\<close>

definition product_key :: "builtins \<Rightarrow> product \<Rightarrow> string result" where
  "product_key py p =
     (case title_lower_strip py p of
        Inl e \<Rightarrow> Inl e
      | Inr t \<Rightarrow> Inr (t @ ''_'' @ py_str py (dict_get (price p) (PInt 0))))"

fun remove_duplicates_loop ::
  "builtins \<Rightarrow> product list \<Rightarrow> string set \<Rightarrow> product list \<Rightarrow> product list result"
where
  "remove_duplicates_loop py [] seen unique_products = Inr unique_products"
| "remove_duplicates_loop py (p # ps) seen unique_products =
     (case product_key py p of
        Inl e \<Rightarrow> Inl e
      | Inr key \<Rightarrow>
          if key \<notin> seen
          then remove_duplicates_loop py ps (insert key seen) (unique_products @ [p])
          else remove_duplicates_loop py ps seen unique_products)"

definition remove_duplicates :: "builtins \<Rightarrow> product list \<Rightarrow> product list result" where
  "remove_duplicates py products = remove_duplicates_loop py products {} []"

section \<open>Sorting\<close>

text \<open>
  A sort key is a field value or the default \<^verbatim>\<open>float('inf')\<close> of a missing price, which
  compares as a number above every other number.
\<close>

datatype sortkey = Key pyval | KeyInf

fun key_lt :: "sortkey \<Rightarrow> sortkey \<Rightarrow> bool result" where
  "key_lt (Key a) (Key b) = py_lt a b"
| "key_lt (Key a) KeyInf = (case num_of a of Some x \<Rightarrow> Inr True | None \<Rightarrow> Inl TypeError)"
| "key_lt KeyInf (Key b) = (case num_of b of Some y \<Rightarrow> Inr False | None \<Rightarrow> Inl TypeError)"
| "key_lt KeyInf KeyInf = Inr False"

text \<open>
  The builtin \<^verbatim>\<open>sorted(xs, key=f)\<close>: a stable sort that compares keys with \<^verbatim>\<open><\<close> only
  and lets the \<^verbatim>\<open>TypeError\<close> of a comparison escape. It is modelled as a stable insertion
  sort. The builtin makes other comparisons in another order, but as here it returns the
  stable ascending arrangement when the keys are comparable with one another, and raises
  when the list has at least two elements and some key is not comparable with the rest.
\<close>

fun py_insort :: "('a \<Rightarrow> sortkey) \<Rightarrow> 'a \<Rightarrow> 'a list \<Rightarrow> 'a list result" where
  "py_insort f x [] = Inr [x]"
| "py_insort f x (y # ys) =
     (case key_lt (f y) (f x) of
        Inl e \<Rightarrow> Inl e
      | Inr b \<Rightarrow>
          if b then (case py_insort f x ys of Inl e \<Rightarrow> Inl e | Inr zs \<Rightarrow> Inr (y # zs))
          else Inr (x # y # ys))"

fun py_sorted :: "('a \<Rightarrow> sortkey) \<Rightarrow> 'a list \<Rightarrow> 'a list result" where
  "py_sorted f [] = Inr []"
| "py_sorted f (x # xs) =
     (case py_sorted f xs of Inl e \<Rightarrow> Inl e | Inr ys \<Rightarrow> py_insort f x ys)"

text \<open>\<^verbatim>\<open>lambda x: x.get('price', float('inf'))\<close>\<close>

definition price_key :: "product \<Rightarrow> sortkey" where
  "price_key x = (case price x of None \<Rightarrow> KeyInf | Some v \<Rightarrow> Key v)"

text \<open>\<^verbatim>\<open>lambda x: x.get('platform', '')\<close> and \<^verbatim>\<open>lambda x: x.get('title', '')\<close>\<close>

definition platform_key :: "product \<Rightarrow> sortkey" where
  "platform_key x = Key (dict_get (platform x) (PStr []))"

definition title_key :: "product \<Rightarrow> sortkey" where
  "title_key x = Key (dict_get (title x) (PStr []))"

definition sort_products :: "product list \<Rightarrow> pyval \<Rightarrow> product list result" where
  "sort_products products sort_by =
     (if sort_by = PStr ''price'' then py_sorted price_key products
      else if sort_by = PStr ''platform'' then py_sorted platform_key products
      else if sort_by = PStr ''title'' then py_sorted title_key products
      else Inr products)"

section \<open>PriceValidator: best deals\<close>

text \<open>The slice \<^verbatim>\<open>xs[:n]\<close>; a negative \<open>n\<close> counts from the end.\<close>

definition slice_to :: "'a list \<Rightarrow> int \<Rightarrow> 'a list" where
  "slice_to xs n = (if n < 0 then take (nat (int (length xs) + n)) xs else take (nat n) xs)"

definition find_best_deals :: "product list \<Rightarrow> int \<Rightarrow> product list result" where
  "find_best_deals products top_n =
     (if products = [] then Inr []
      else case py_sorted price_key products of
             Inl e \<Rightarrow> Inl e
           | Inr sorted_products \<Rightarrow> Inr (slice_to sorted_products top_n))"

section \<open>PriceValidator: price analysis\<close>

record platform_stats =
  ps_count :: nat
  ps_average :: real
  ps_min :: real
  ps_max :: real

record price_analysis =
  pa_count :: nat
  pa_min :: real
  pa_max :: real
  pa_average :: real
  pa_median :: real
  pa_by_platform :: "(pyval \<times> platform_stats) list option"

text \<open>The record returned for no products or no positive price; it has no \<^verbatim>\<open>by_platform\<close>.\<close>

definition zero_analysis :: price_analysis where
  "zero_analysis =
     \<lparr>pa_count = 0, pa_min = 0, pa_max = 0, pa_average = 0, pa_median = 0,
      pa_by_platform = None\<rparr>"

text \<open>The value of a number; applied only after a comparison with \<open>0\<close> has succeeded.\<close>

definition num_val :: "pyval \<Rightarrow> real" where
  "num_val v = (case num_of v of Some x \<Rightarrow> x | None \<Rightarrow> 0)"

text \<open>
  \<^verbatim>\<open>[p.get('price', 0) for p in products if p.get('price', 0) > 0]\<close>: the comparison of a
  string or \<^verbatim>\<open>None\<close> with \<open>0\<close> raises.
\<close>

fun positive_prices :: "product list \<Rightarrow> real list result" where
  "positive_prices [] = Inr []"
| "positive_prices (p # ps) =
     (case py_lt (PInt 0) (dict_get (price p) (PInt 0)) of
        Inl e \<Rightarrow> Inl e
      | Inr b \<Rightarrow>
          (case positive_prices ps of
             Inl e \<Rightarrow> Inl e
           | Inr xs \<Rightarrow> Inr (if b then num_val (dict_get (price p) (PInt 0)) # xs else xs)))"

text \<open>
  \<^verbatim>\<open>prices[count // 2] if count % 2 == 1 else (prices[count // 2 - 1] + prices[count // 2]) / 2\<close>
  on the sorted, non-empty list.
\<close>

definition median_of :: "real list \<Rightarrow> real" where
  "median_of prices =
     (let count = length prices in
      if count mod 2 = 1 then prices ! (count div 2)
      else (prices ! (count div 2 - 1) + prices ! (count div 2)) / 2)"

text \<open>
  Dictionary keys are equal when \<^verbatim>\<open>==\<close> holds: a number equals a number of the same
  value, a string the same string, \<^verbatim>\<open>None\<close> itself.
\<close>

fun py_eq :: "pyval \<Rightarrow> pyval \<Rightarrow> bool" where
  "py_eq (PStr s) (PStr t) = (s = t)"
| "py_eq PNone PNone = True"
| "py_eq a b = (case (num_of a, num_of b) of (Some x, Some y) \<Rightarrow> x = y | _ \<Rightarrow> False)"

text \<open>
  \<^verbatim>\<open>if platform not in d: d[platform] = []\<close> and \<^verbatim>\<open>d[platform].append(price)\<close> on a
  dictionary kept in insertion order.
\<close>

fun group_append :: "pyval \<Rightarrow> real \<Rightarrow> (pyval \<times> real list) list \<Rightarrow> (pyval \<times> real list) list" where
  "group_append k v [] = [(k, [v])]"
| "group_append k v ((k', vs) # d) =
     (if py_eq k' k then (k', vs @ [v]) # d else (k', vs) # group_append k v d)"

fun group_prices ::
  "product list \<Rightarrow> (pyval \<times> real list) list \<Rightarrow> (pyval \<times> real list) list result"
where
  "group_prices [] by_platform = Inr by_platform"
| "group_prices (p # ps) by_platform =
     (case py_lt (PInt 0) (dict_get (price p) (PInt 0)) of
        Inl e \<Rightarrow> Inl e
      | Inr b \<Rightarrow>
          group_prices ps
            (if b then group_append (dict_get (platform p) (PStr ''unknown''))
                        (num_val (dict_get (price p) (PInt 0))) by_platform
             else by_platform))"

definition stats_of :: "real list \<Rightarrow> platform_stats" where
  "stats_of prices =
     \<lparr>ps_count = length prices,
      ps_average = sum_list prices / real (length prices),
      ps_min = Min (set prices),
      ps_max = Max (set prices)\<rparr>"

definition analyze_prices :: "product list \<Rightarrow> price_analysis result" where
  "analyze_prices products =
     (if products = [] then Inr zero_analysis
      else case positive_prices products of
        Inl e \<Rightarrow> Inl e
      | Inr unsorted \<Rightarrow>
          if unsorted = [] then Inr zero_analysis
          else
            let prices = sort unsorted;
                count = length prices;
                median = median_of prices
            in case group_prices products [] of
                 Inl e \<Rightarrow> Inl e
               | Inr by_platform \<Rightarrow>
                   Inr \<lparr>pa_count = count,
                        pa_min = Min (set prices),
                        pa_max = Max (set prices),
                        pa_average = sum_list prices / real count,
                        pa_median = median,
                        pa_by_platform =
                          Some (map (\<lambda>(k, vs). (k, stats_of vs)) by_platform)\<rparr>)"

section \<open>FilterAgent.execute\<close>

record filter_task =
  ft_products :: "product list option"
  ft_search_criteria :: "criteria option"
  ft_filter_duplicates :: "bool option"
  ft_sort_by :: "pyval option"

record filter_result =
  fr_status :: string
  fr_filtered_products :: "product list"
  fr_original_count :: nat
  fr_filtered_count :: nat
  fr_price_analysis :: "price_analysis option"
  fr_best_deals :: "product list option"
  fr_error :: "py_error option"

definition empty_criteria :: criteria where
  "empty_criteria = \<lparr>c_brand = None, c_model = None, c_max_price = None\<rparr>"

text \<open>
  The \<^verbatim>\<open>except\<close> branch. It reads \<^verbatim>\<open>len(products)\<close>, and \<^verbatim>\<open>products\<close> is the variable
  that the steps of the pipeline reassign: its argument is the list that the variable
  holds when the exception is raised.
\<close>

definition filter_failed :: "product list \<Rightarrow> py_error \<Rightarrow> filter_result" where
  "filter_failed products e =
     \<lparr>fr_status = ''error'', fr_filtered_products = [],
      fr_original_count = length products, fr_filtered_count = 0,
      fr_price_analysis = None, fr_best_deals = None, fr_error = Some e\<rparr>"

definition execute :: "builtins \<Rightarrow> filter_task \<Rightarrow> filter_result" where
  "execute py task =
     (let products0 = dict_get (ft_products task) [];
          search_criteria = dict_get (ft_search_criteria task) empty_criteria;
          filter_duplicates = dict_get (ft_filter_duplicates task) True;
          sort_by = dict_get (ft_sort_by task) (PStr ''price'');
          original_count = length products0;
          products1 = price_filter_step search_criteria products0
      in case (if filter_duplicates then remove_duplicates py products1 else Inr products1) of
           Inl e \<Rightarrow> filter_failed products1 e
         | Inr products2 \<Rightarrow>
        (case sort_products products2 sort_by of
           Inl e \<Rightarrow> filter_failed products2 e
         | Inr products3 \<Rightarrow>
        (case analyze_prices products3 of
           Inl e \<Rightarrow> filter_failed products3 e
         | Inr price_analysis \<Rightarrow>
        (case find_best_deals products3 5 of
           Inl e \<Rightarrow> filter_failed products3 e
         | Inr best_deals \<Rightarrow>
             \<lparr>fr_status = ''success'', fr_filtered_products = products3,
              fr_original_count = original_count, fr_filtered_count = length products3,
              fr_price_analysis = Some price_analysis, fr_best_deals = Some best_deals,
              fr_error = None\<rparr>))))"

section \<open>BaseAgent.run and the search agents\<close>

record search_params =
  sp_search_criteria :: criteria
  sp_max_results :: int

record platform_result =
  pr_status :: "string option"
  pr_platform :: "string option"
  pr_products :: "product list option"
  pr_count :: "int option"
  pr_error :: "string option"
  pr_agent :: "string option"

text \<open>
  A search agent is its name and its \<^verbatim>\<open>execute\<close>, which is outside this development
  (browser and extraction): it returns a result dictionary or raises an exception with a
  message.
\<close>

record agent =
  agent_name :: string
  agent_execute :: "search_params \<Rightarrow> string + platform_result"

text \<open>\<^verbatim>\<open>BaseAgent.run\<close>: the result of \<^verbatim>\<open>execute\<close>, or the dictionary of the \<^verbatim>\<open>except\<close> branch.\<close>

definition run :: "agent \<Rightarrow> search_params \<Rightarrow> platform_result" where
  "run a task =
     (case agent_execute a task of
        Inr result \<Rightarrow> result
      | Inl msg \<Rightarrow>
          \<lparr>pr_status = Some ''error'', pr_platform = None, pr_products = None,
           pr_count = None, pr_error = Some msg, pr_agent = Some (agent_name a)\<rparr>)"

section \<open>CoordinatorAgent\<close>

record coordinator_task =
  ct_search_criteria :: "criteria option"
  ct_platforms :: "string list option"
  ct_max_results_per_platform :: "int option"
  ct_parallel :: "bool option"

record summary =
  total_products_found :: int
  after_filtering :: nat
  successful_platforms :: "string list"
  failed_platforms :: "string list"
  search_query :: string
  max_price :: pyval

record coordinator_result =
  cr_status :: string
  cr_search_criteria :: criteria
  cr_results_by_platform :: "(string \<times> platform_result) list"
  cr_all_products :: "product list"
  cr_filtered_products :: "product list"
  cr_best_deals :: "product list"
  cr_price_analysis :: "price_analysis option"
  cr_summary :: summary

text \<open>The search agents of the coordinator, and its \<^verbatim>\<open>agent_map\<close>.\<close>

record agents =
  jd_agent :: agent
  taobao_agent :: agent
  pdd_agent :: agent

definition agent_map :: "agents \<Rightarrow> (string \<times> agent) list" where
  "agent_map self =
     [(''jd'', jd_agent self), (''taobao'', taobao_agent self), (''pdd'', pdd_agent self)]"

text \<open>
  \<^verbatim>\<open>agent.run(search_task_params)\<close> creates a coroutine; nothing runs until it is awaited.
\<close>

datatype coroutine = Run agent search_params

fun await :: "coroutine \<Rightarrow> platform_result" where
  "await (Run a task) = run a task"

fun create_search_tasks ::
  "(string \<times> agent) list \<Rightarrow> search_params \<Rightarrow> string list \<Rightarrow>
   (string \<times> coroutine) list \<Rightarrow> (string \<times> coroutine) list"
where
  "create_search_tasks amap params [] search_tasks = search_tasks"
| "create_search_tasks amap params (p # platforms) search_tasks =
     (case map_of amap p of
        Some a \<Rightarrow> create_search_tasks amap params platforms (search_tasks @ [(p, Run a params)])
      | None \<Rightarrow> create_search_tasks amap params platforms search_tasks)"

text \<open>\<^verbatim>\<open>asyncio.gather\<close> returns the results in the order of its arguments.\<close>

definition gather :: "coroutine list \<Rightarrow> platform_result list" where
  "gather cs = map await cs"

fun sequential ::
  "(string \<times> coroutine) list \<Rightarrow> platform_result list \<Rightarrow> platform_result list" where
  "sequential [] results = results"
| "sequential ((p, c) # search_tasks) results = sequential search_tasks (results @ [await c])"

text \<open>\<^verbatim>\<open>d[k] = v\<close> on a dictionary kept in insertion order.\<close>

fun dict_set :: "'k \<Rightarrow> 'v \<Rightarrow> ('k \<times> 'v) list \<Rightarrow> ('k \<times> 'v) list" where
  "dict_set k v [] = [(k, v)]"
| "dict_set k v ((k', v') # d) = (if k' = k then (k', v) # d else (k', v') # dict_set k v d)"

text \<open>
  The loop \<^verbatim>\<open>for i, (platform, _) in enumerate(search_tasks)\<close> with \<^verbatim>\<open>result = results[i]\<close>;
  there is one result for each task.
\<close>

fun collect_results ::
  "(string \<times> coroutine) list \<Rightarrow> platform_result list \<Rightarrow>
   (string \<times> platform_result) list \<Rightarrow> product list \<Rightarrow>
   (string \<times> platform_result) list \<times> product list"
where
  "collect_results ((p, c) # search_tasks) (result # results) results_by_platform all_products =
     collect_results search_tasks results (dict_set p result results_by_platform)
       (if pr_status result = Some ''success''
        then all_products @ dict_get (pr_products result) []
        else all_products)"
| "collect_results search_tasks results results_by_platform all_products =
     (results_by_platform, all_products)"

definition generate_summary ::
  "builtins \<Rightarrow> criteria \<Rightarrow> (string \<times> platform_result) list \<Rightarrow> filter_result \<Rightarrow> summary"
where
  "generate_summary py search_criteria results_by_platform filter_result =
     \<lparr>total_products_found =
        sum_list (map (\<lambda>(p, r). dict_get (pr_count r) 0)
                    (filter (\<lambda>(p, r). pr_status r = Some ''success'') results_by_platform)),
      after_filtering = fr_filtered_count filter_result,
      successful_platforms =
        map fst (filter (\<lambda>(p, r). pr_status r = Some ''success'') results_by_platform),
      failed_platforms =
        map fst (filter (\<lambda>(p, r). pr_status r \<noteq> Some ''success'') results_by_platform),
      search_query =
        str_strip py (py_str py (dict_get (c_brand search_criteria) (PStr [])) @ '' '' @
                   py_str py (dict_get (c_model search_criteria) (PStr []))),
      max_price = dict_get (c_max_price search_criteria) (PInt 0)\<rparr>"

text \<open>
  \<^verbatim>\<open>CoordinatorAgent.execute\<close>. The filter agent is run through \<^verbatim>\<open>BaseAgent.run\<close>, which
  returns the result of \<^verbatim>\<open>FilterAgent.execute\<close>, since that catches its own exceptions.
  No step of the \<^verbatim>\<open>try\<close> block raises on the values of this model, so the \<^verbatim>\<open>except\<close> branch
  of the coordinator is not reached.
\<close>

definition coordinate ::
  "builtins \<Rightarrow> agents \<Rightarrow> coordinator_task \<Rightarrow> coordinator_result"
where
  "coordinate py self task =
     (let search_criteria = dict_get (ct_search_criteria task) empty_criteria;
          platforms = dict_get (ct_platforms task) [''jd'', ''taobao'', ''pdd''];
          max_results = dict_get (ct_max_results_per_platform task) 10;
          parallel = dict_get (ct_parallel task) True;
          search_task_params =
            \<lparr>sp_search_criteria = search_criteria, sp_max_results = max_results\<rparr>;
          search_tasks = create_search_tasks (agent_map self) search_task_params platforms [];
          results = (if parallel then gather (map snd search_tasks)
                     else sequential search_tasks []);
          (results_by_platform, all_products) = collect_results search_tasks results [] [];
          filter_task =
            \<lparr>ft_products = Some all_products, ft_search_criteria = Some search_criteria,
             ft_filter_duplicates = Some True, ft_sort_by = Some (PStr ''price'')\<rparr>;
          filter_result = execute py filter_task;
          summary = generate_summary py search_criteria results_by_platform filter_result
      in \<lparr>cr_status = ''success'',
          cr_search_criteria = search_criteria,
          cr_results_by_platform = results_by_platform,
          cr_all_products = all_products,
          cr_filtered_products = fr_filtered_products filter_result,
          cr_best_deals = dict_get (fr_best_deals filter_result) [],
          cr_price_analysis = fr_price_analysis filter_result,
          cr_summary = summary\<rparr>)"

section \<open>Notions used in the statements\<close>

text \<open>The title of a product is a string, or the product has no title.\<close>

definition title_is_str :: "product \<Rightarrow> bool" where
  "title_is_str p = (case title p of None \<Rightarrow> True | Some (PStr s) \<Rightarrow> True | Some v \<Rightarrow> False)"

text \<open>The key of a product whose title is a string, as a plain string.\<close>

definition key_of :: "builtins \<Rightarrow> product \<Rightarrow> string" where
  "key_of py p =
     (case dict_get (title p) (PStr []) of
        PStr s \<Rightarrow> str_strip py (str_lower py s) @ ''_'' @ py_str py (dict_get (price p) (PInt 0))
      | _ \<Rightarrow> [])"

text \<open>The elements whose key does not occur in \<open>seen\<close> nor earlier in the list.\<close>

fun first_by_key :: "('a \<Rightarrow> 'k) \<Rightarrow> 'k set \<Rightarrow> 'a list \<Rightarrow> 'a list" where
  "first_by_key k seen [] = []"
| "first_by_key k seen (x # xs) =
     (if k x \<in> seen then first_by_key k seen xs
      else x # first_by_key k (insert (k x) seen) xs)"

text \<open>The price of a product is a number, or the product has no price.\<close>

definition price_is_num :: "product \<Rightarrow> bool" where
  "price_is_num p = (case price p of None \<Rightarrow> True | Some v \<Rightarrow> num_of v \<noteq> None)"

text \<open>The platform of a product is a string, or the product has no platform.\<close>

definition platform_is_str :: "product \<Rightarrow> bool" where
  "platform_is_str p = (case platform p of None \<Rightarrow> True | Some (PStr s) \<Rightarrow> True | Some v \<Rightarrow> False)"

text \<open>The price as a number; \<open>None\<close> stands for the \<open>+\<infinity>\<close> of a missing price.\<close>

definition price_num :: "product \<Rightarrow> real option" where
  "price_num p = Option.bind (price p) num_of"

text \<open>The order of the reals extended with \<open>+\<infinity>\<close> (\<open>None\<close>) on top.\<close>

fun ext_le :: "real option \<Rightarrow> real option \<Rightarrow> bool" where
  "ext_le a None = True"
| "ext_le None (Some y) = False"
| "ext_le (Some x) (Some y) = (x \<le> y)"

text \<open>A string field, with the empty string for a missing one.\<close>

definition str_or_empty :: "pyval option \<Rightarrow> string" where
  "str_or_empty field = (case field of Some (PStr s) \<Rightarrow> s | _ \<Rightarrow> [])"

text \<open>\<open>a\<close> may stand before \<open>b\<close> in a sorted list: \<^verbatim>\<open>b < a\<close> is false.\<close>

definition key_le :: "sortkey \<Rightarrow> sortkey \<Rightarrow> bool" where
  "key_le a b = (key_lt b a = Inr False)"

text \<open>The field that \<open>sort_by\<close> names has, in every product, the type the data model gives it.\<close>

definition sortable :: "pyval \<Rightarrow> product list \<Rightarrow> bool" where
  "sortable sort_by ps =
     (if sort_by = PStr ''price'' then list_all price_is_num ps
      else if sort_by = PStr ''platform'' then list_all platform_is_str ps
      else if sort_by = PStr ''title'' then list_all title_is_str ps
      else True)"

text \<open>The list ascends in the field that \<open>sort_by\<close> names.\<close>

definition ascending :: "pyval \<Rightarrow> product list \<Rightarrow> bool" where
  "ascending sort_by qs =
     (if sort_by = PStr ''price'' then sorted_wrt (\<lambda>a b. ext_le (price_num a) (price_num b)) qs
      else if sort_by = PStr ''platform''
        then sorted_wrt (\<lambda>a b. str_or_empty (platform a) \<le> str_or_empty (platform b)) qs
      else if sort_by = PStr ''title''
        then sorted_wrt (\<lambda>a b. str_or_empty (title a) \<le> str_or_empty (title b)) qs
      else True)"

text \<open>The two kinds of keys that compare with one another: numbers with infinity, and strings.\<close>

fun key_num :: "sortkey \<Rightarrow> real option option" where
  "key_num KeyInf = Some None"
| "key_num (Key v) = map_option Some (num_of v)"

fun key_str :: "sortkey \<Rightarrow> string option" where
  "key_str (Key (PStr s)) = Some s"
| "key_str k = None"

text \<open>The number that the price analysis reads: \<^verbatim>\<open>p.get('price', 0)\<close>.\<close>

definition price_value :: "product \<Rightarrow> real" where
  "price_value p = num_val (dict_get (price p) (PInt 0))"

text \<open>\<^verbatim>\<open>product.get('platform', 'unknown')\<close>\<close>

definition platform_or_unknown :: "product \<Rightarrow> pyval" where
  "platform_or_unknown p = dict_get (platform p) (PStr ''unknown'')"

text \<open>\<^verbatim>\<open>d.get(k)\<close> on a dictionary whose keys are values.\<close>

fun lookup_eq :: "pyval \<Rightarrow> (pyval \<times> 'v) list \<Rightarrow> 'v option" where
  "lookup_eq k [] = None"
| "lookup_eq k ((k', v) # d) = (if py_eq k' k then Some v else lookup_eq k d)"

text \<open>The positive prices of the products of platform \<open>k\<close>, in the order of the list.\<close>

definition platform_prices :: "pyval \<Rightarrow> product list \<Rightarrow> real list" where
  "platform_prices k ps =
     map price_value (filter (\<lambda>p. py_eq (platform_or_unknown p) k \<and> 0 < price_value p) ps)"

text \<open>The strictly positive prices of the products, in the order of the list.\<close>

definition positive_values :: "product list \<Rightarrow> real list" where
  "positive_values ps = filter (\<lambda>x. 0 < x) (map price_value ps)"

text \<open>The fields that the pipeline reads have the types of the data model.\<close>

definition well_typed :: "product \<Rightarrow> bool" where
  "well_typed p = (title_is_str p \<and> price_is_num p \<and> platform_is_str p)"

text \<open>The list handed to the deduplication, and its result.\<close>

definition after_price_filter :: "filter_task \<Rightarrow> product list" where
  "after_price_filter task =
     price_filter_step (dict_get (ft_search_criteria task) empty_criteria)
       (dict_get (ft_products task) [])"

definition after_dedup :: "builtins \<Rightarrow> filter_task \<Rightarrow> product list result" where
  "after_dedup py task =
     (if dict_get (ft_filter_duplicates task) True
      then remove_duplicates py (after_price_filter task)
      else Inr (after_price_filter task))"

text \<open>The requested platform ids that the registry knows, in the order of the request.\<close>

definition known_platforms :: "coordinator_task \<Rightarrow> string list" where
  "known_platforms task =
     filter (\<lambda>p. p \<in> {''jd'', ''taobao'', ''pdd''})
       (dict_get (ct_platforms task) [''jd'', ''taobao'', ''pdd''])"

text \<open>The agent registered for a known platform id.\<close>

definition agent_for :: "agents \<Rightarrow> string \<Rightarrow> agent" where
  "agent_for self p =
     (if p = ''jd'' then jd_agent self
      else if p = ''taobao'' then taobao_agent self
      else pdd_agent self)"

text \<open>The parameters handed to every search agent, and the result of the agent of \<open>p\<close>.\<close>

definition params_of :: "coordinator_task \<Rightarrow> search_params" where
  "params_of task =
     \<lparr>sp_search_criteria = dict_get (ct_search_criteria task) empty_criteria,
      sp_max_results = dict_get (ct_max_results_per_platform task) 10\<rparr>"

definition result_of :: "agents \<Rightarrow> coordinator_task \<Rightarrow> string \<Rightarrow> platform_result" where
  "result_of self task p = run (agent_for self p) (params_of task)"

text \<open>The test \<^verbatim>\<open>result.get('status') == 'success'\<close>.\<close>

definition succeeded :: "platform_result \<Rightarrow> bool" where
  "succeeded r = (pr_status r = Some ''success'')"

text \<open>The products that a platform result contributes.\<close>

definition products_of :: "platform_result \<Rightarrow> product list" where
  "products_of r = (if succeeded r then dict_get (pr_products r) [] else [])"

text \<open>The task that the coordinator hands to the filter agent.\<close>

definition filter_task_of :: "coordinator_task \<Rightarrow> product list \<Rightarrow> filter_task" where
  "filter_task_of task all_products =
     \<lparr>ft_products = Some all_products,
      ft_search_criteria = Some (dict_get (ct_search_criteria task) empty_criteria),
      ft_filter_duplicates = Some True, ft_sort_by = Some (PStr ''price'')\<rparr>"

section \<open>Example inputs\<close>

text \<open>
  On ASCII text \<^verbatim>\<open>str.lower()\<close> and \<^verbatim>\<open>str.strip()\<close> are the following functions; the
  examples, whose strings are ASCII, take them for the two builtins.
\<close>

definition ascii_lower :: "char \<Rightarrow> char" where
  "ascii_lower c =
     (case map_of (zip ''ABCDEFGHIJKLMNOPQRSTUVWXYZ'' ''abcdefghijklmnopqrstuvwxyz'') c of
        Some l \<Rightarrow> l
      | None \<Rightarrow> c)"

definition lower_ascii :: "string \<Rightarrow> string" where
  "lower_ascii s = map ascii_lower s"

text \<open>The ASCII characters for which \<^verbatim>\<open>str.isspace()\<close> holds.\<close>

definition is_space :: "char \<Rightarrow> bool" where
  "is_space c = (of_char c \<in> {9, 10, 11, 12, 13, 28, 29, 30, 31, 32 :: nat})"

definition strip_ascii :: "string \<Rightarrow> string" where
  "strip_ascii s = rev (dropWhile is_space (rev (dropWhile is_space s)))"

text \<open>
  The builtins of the examples. Every number that the examples divide or add gives a
  float exactly, so that rounding to the nearest float changes nothing.
\<close>

definition example_builtins :: builtins where
  "example_builtins =
     \<lparr>float_repr = (\<lambda>r. ''0.0''), str_lower = lower_ascii, str_strip = strip_ascii,
      nearest = (\<lambda>x. x),
      float_sum = (\<lambda>xs. Inr (PFloat (sum_list (map (\<lambda>v. case num_of v of Some x \<Rightarrow> x | None \<Rightarrow> 0) xs))))\<rparr>"

definition example_iphone_jd :: product where
  "example_iphone_jd =
     \<lparr>title = Some (PStr ''iPhone 15 Pro ''), price = Some (PInt 7999), brand = None,
      model = None, url = Some (PStr ''a''), shop = Some (PStr ''s1''),
      platform = Some (PStr ''jd'')\<rparr>"

definition example_case_jd :: product where
  "example_case_jd =
     \<lparr>title = Some (PStr ''Case''), price = Some (PInt 20), brand = None,
      model = None, url = None, shop = None, platform = Some (PStr ''jd'')\<rparr>"

definition example_iphone_pdd :: product where
  "example_iphone_pdd =
     \<lparr>title = Some (PStr '' iphone 15 pro''), price = Some (PInt 7999), brand = None,
      model = None, url = Some (PStr ''b''), shop = Some (PStr ''s2''),
      platform = Some (PStr ''pdd'')\<rparr>"

definition example_free :: product where
  "example_free =
     \<lparr>title = Some (PStr ''Sticker''), price = Some (PInt 0), brand = None,
      model = None, url = None, shop = None, platform = Some (PStr ''pdd'')\<rparr>"

definition example_text_price :: product where
  "example_text_price =
     \<lparr>title = Some (PStr ''Cable''), price = Some (PStr ''n/a''), brand = None,
      model = None, url = None, shop = None, platform = Some (PStr ''jd'')\<rparr>"

definition example_no_price :: product where
  "example_no_price =
     \<lparr>title = Some (PStr ''Charger''), price = None, brand = None,
      model = None, url = None, shop = None, platform = Some (PStr ''jd'')\<rparr>"

definition example_no_title :: product where
  "example_no_title =
     \<lparr>title = Some PNone, price = Some (PInt 50), brand = None,
      model = None, url = None, shop = None, platform = Some (PStr ''jd'')\<rparr>"

definition example_priced :: "int \<Rightarrow> string \<Rightarrow> product" where
  "example_priced n pf =
     \<lparr>title = Some (PStr ''Item''), price = Some (PInt n), brand = None,
      model = None, url = None, shop = None, platform = Some (PStr pf)\<rparr>"

definition budget :: "pyval option \<Rightarrow> criteria" where
  "budget m = \<lparr>c_brand = Some (PStr ''Apple''), c_model = Some (PStr ''iPhone 15 Pro''),
               c_max_price = m\<rparr>"

definition example_task :: "product list \<Rightarrow> pyval option \<Rightarrow> string \<Rightarrow> filter_task" where
  "example_task ps m sort_by =
     \<lparr>ft_products = Some ps, ft_search_criteria = Some (budget m),
      ft_filter_duplicates = Some True, ft_sort_by = Some (PStr sort_by)\<rparr>"

definition example_ok_agent :: "string \<Rightarrow> string \<Rightarrow> product list \<Rightarrow> agent" where
  "example_ok_agent name pf ps =
     \<lparr>agent_name = name,
      agent_execute = (\<lambda>task. Inr \<lparr>pr_status = Some ''success'', pr_platform = Some pf,
                                    pr_products = Some ps, pr_count = Some (int (length ps)),
                                    pr_error = None, pr_agent = None\<rparr>)\<rparr>"

definition example_failing_agent :: "string \<Rightarrow> string \<Rightarrow> agent" where
  "example_failing_agent name msg = \<lparr>agent_name = name, agent_execute = (\<lambda>task. Inl msg)\<rparr>"

definition example_agents :: agents where
  "example_agents =
     \<lparr>jd_agent = example_failing_agent ''JD_Search_Agent'' ''Timeout'',
      taobao_agent = example_ok_agent ''Taobao_Search_Agent'' ''taobao''
                       [example_priced 30 ''taobao''],
      pdd_agent = example_ok_agent ''PDD_Search_Agent'' ''pdd''
                    [example_priced 20 ''pdd'', example_priced 10 ''pdd'']\<rparr>"

definition example_coordinator_task :: coordinator_task where
  "example_coordinator_task =
     \<lparr>ct_search_criteria = Some (budget (Some (PInt 8999))),
      ct_platforms = Some [''pdd'', ''ebay'', ''jd'', ''taobao''],
      ct_max_results_per_platform = None, ct_parallel = Some False\<rparr>"

lemmas example_defs =
  example_builtins_def example_iphone_jd_def example_case_jd_def example_iphone_pdd_def
  example_free_def example_text_price_def example_no_price_def example_no_title_def budget_def

lemmas string_eval =
  strip_ascii_def lower_ascii_def ascii_lower_def is_space_def str_of_int_def digits.simps

section \<open>Properties of the price filter\<close>

lemma validate_price_iff:
  "validate_price v m = (\<exists>x y. num_of v = Some x \<and> num_of m = Some y \<and> 0 < x \<and> x \<le> y)"
  by (cases v; cases m)
     (simp_all add: validate_price_def chained_0_lt_le_def)

lemma filter_by_price_loop_eq:
  "filter_by_price_loop ps m acc =
     acc @ filter (\<lambda>p. validate_price (dict_get (price p) (PInt 0)) m) ps"
  by (induction ps arbitrary: acc) simp_all

lemma filter_by_price_eq:
  "filter_by_price ps m = filter (\<lambda>p. validate_price (dict_get (price p) (PInt 0)) m) ps"
  by (simp add: filter_by_price_def filter_by_price_loop_eq)

lemma validate_price_in_budget:
  "validate_price (dict_get (price p) (PInt 0)) m = price_in_budget m p"
  by (cases "price p"; cases "num_of m")
     (auto simp: validate_price_iff price_in_budget_def dict_get_def split: option.splits)


text \<open>
  C3. With a truthy \<^verbatim>\<open>max_price\<close> the price filter keeps exactly the products whose price
  is a number with \<open>0 < price \<le> max_price\<close>; a price that is not a number, or out of
  range, drops the product and nothing is raised; every product kept is in the budget.
  With \<^verbatim>\<open>max_price\<close> missing or falsy (\<open>0\<close> included) the step is skipped and every
  product passes.
\<close>

theorem price_filter_step_budget:
  "filter_by_price ps m = filter (price_in_budget m) ps
   \<and> list_all (price_in_budget m) (filter_by_price ps m)
   \<and> price_filter_step sc ps =
       (if py_truthy (dict_get (c_max_price sc) PNone)
        then filter_by_price ps (dict_get (c_max_price sc) PNone)
        else ps)
   \<and> price_filter_step (sc\<lparr>c_max_price := None\<rparr>) ps = ps
   \<and> price_filter_step (sc\<lparr>c_max_price := Some (PInt 0)\<rparr>) ps = ps
   \<and> price_filter_step (sc\<lparr>c_max_price := Some (PFloat 0)\<rparr>) ps = ps"
proof -
  have "filter_by_price ps m = filter (price_in_budget m) ps"
    by (simp add: filter_by_price_eq validate_price_in_budget)
  moreover from this have "list_all (price_in_budget m) (filter_by_price ps m)"
    by (simp add: list_all_iff)
  ultimately show ?thesis
    by (simp add: price_filter_step_def dict_get_def)
qed

theorem price_filter_step_budget_witness:
  "price_filter_step (budget (Some (PInt 8999)))
     [example_free, example_iphone_jd, example_text_price, example_no_price,
      example_iphone_jd\<lparr>price := Some (PFloat 9000.5)\<rparr>, example_case_jd]
     = [example_iphone_jd, example_case_jd]
   \<and> price_filter_step (budget (Some (PInt 0))) [example_free, example_text_price]
     = [example_free, example_text_price]"
  using price_filter_step_budget
    [of "[example_free, example_iphone_jd, example_text_price, example_no_price,
          example_iphone_jd\<lparr>price := Some (PFloat 9000.5)\<rparr>, example_case_jd]"
        "PInt 8999" "budget (Some (PInt 8999))"]
    price_filter_step_budget [of "[example_free, example_text_price]" "PInt 0" "budget None"]
  by (simp add: example_defs price_in_budget_def dict_get_def)

section \<open>Properties of the deduplication\<close>

lemma product_key_str: "title_is_str p \<Longrightarrow> product_key fr p = Inr (key_of fr p)"
  by (auto simp: title_is_str_def product_key_def title_lower_strip_def key_of_def dict_get_def
           split: option.splits pyval.splits)

lemma product_key_not_str: "\<not> title_is_str p \<Longrightarrow> product_key fr p = Inl AttributeError"
  by (auto simp: title_is_str_def product_key_def title_lower_strip_def dict_get_def
           split: option.splits pyval.splits)

lemma remove_duplicates_loop_str:
  "list_all title_is_str ps \<Longrightarrow>
   remove_duplicates_loop fr ps seen acc = Inr (acc @ first_by_key (key_of fr) seen ps)"
  by (induction ps arbitrary: seen acc) (simp_all add: product_key_str)

lemma remove_duplicates_loop_not_str:
  "\<not> list_all title_is_str ps \<Longrightarrow> remove_duplicates_loop fr ps seen acc = Inl AttributeError"
proof (induction ps arbitrary: seen acc)
  case Nil
  then show ?case by simp
next
  case (Cons p ps)
  show ?case
  proof (cases "title_is_str p")
    case True
    with Cons show ?thesis by (simp add: product_key_str)
  next
    case False
    then show ?thesis by (simp add: product_key_not_str)
  qed
qed

lemma remove_duplicates_str:
  "list_all title_is_str ps \<Longrightarrow> remove_duplicates fr ps = Inr (first_by_key (key_of fr) {} ps)"
  by (simp add: remove_duplicates_def remove_duplicates_loop_str)

lemma remove_duplicates_not_str:
  "\<not> list_all title_is_str ps \<Longrightarrow> remove_duplicates fr ps = Inl AttributeError"
  by (simp add: remove_duplicates_def remove_duplicates_loop_not_str)

lemma first_by_key_keys: "k ` set (first_by_key k seen xs) = k ` set xs - seen"
  by (induction xs arbitrary: seen) auto


lemma first_by_key_distinct: "distinct (map k (first_by_key k seen xs))"
proof (induction xs arbitrary: seen)
  case Nil
  show ?case by simp
next
  case (Cons x xs)
  have "k x \<notin> k ` set (first_by_key k (insert (k x) seen) xs)"
    by (simp add: first_by_key_keys)
  with Cons show ?case by simp
qed

lemma first_by_key_subseq: "subseq (first_by_key k seen xs) xs"
  by (induction xs arbitrary: seen) auto


lemma first_by_key_id:
  "distinct (map k ys) \<Longrightarrow> k ` set ys \<inter> seen = {} \<Longrightarrow> first_by_key k seen ys = ys"
  by (induction ys arbitrary: seen) auto

lemma first_by_key_idem:
  "first_by_key k seen (first_by_key k seen xs) = first_by_key k seen xs"
  by (rule first_by_key_id) (auto simp: first_by_key_distinct first_by_key_keys)

lemma first_by_key_all: "list_all P xs \<Longrightarrow> list_all P (first_by_key k seen xs)"
  by (induction xs arbitrary: seen) auto





lemma example_products_dedup:
  "remove_duplicates example_builtins [example_iphone_jd, example_case_jd, example_iphone_pdd] =
     Inr [example_iphone_jd, example_case_jd]"
  by (simp add: remove_duplicates_def product_key_def title_lower_strip_def dict_get_def
        example_defs string_eval)


lemma remove_duplicates_Inr_iff:
  "(\<exists>qs. remove_duplicates py ps = Inr qs) = list_all title_is_str ps"
  using remove_duplicates_str [of ps py] remove_duplicates_not_str [of ps py]
  by (cases "list_all title_is_str ps") auto

text \<open>
  The price is formatted into the key, so the integer \<open>999\<close> and the float \<open>999.0\<close>
  give two keys.
\<close>

lemma dedup_int_float_example:
  "remove_duplicates (example_builtins\<lparr>float_repr := (\<lambda>r. ''999.0'')\<rparr>)
     [example_priced 999 ''jd'', (example_priced 999 ''jd'')\<lparr>price := Some (PFloat 999)\<rparr>]
   = Inr [example_priced 999 ''jd'',
          (example_priced 999 ''jd'')\<lparr>price := Some (PFloat 999)\<rparr>]"
  by (simp add: remove_duplicates_def product_key_def title_lower_strip_def dict_get_def
        example_priced_def string_eval)



text \<open>
  C9. Deduplication is idempotent: applied to its own output it returns that output.
\<close>

theorem remove_duplicates_idempotent:
  assumes "remove_duplicates py ps = Inr qs"
  shows "remove_duplicates py qs = Inr qs"
proof -
  have str: "list_all title_is_str ps"
    using assms remove_duplicates_not_str [of ps py] by auto
  then have qs: "qs = first_by_key (key_of py) {} ps"
    using assms by (simp add: remove_duplicates_str)
  then have "list_all title_is_str qs"
    using str by (simp add: first_by_key_all)
  then have "remove_duplicates py qs = Inr (first_by_key (key_of py) {} qs)"
    by (rule remove_duplicates_str)
  then show ?thesis by (simp add: qs first_by_key_idem)
qed


theorem remove_duplicates_idempotent_witness:
  "remove_duplicates example_builtins [example_iphone_jd, example_case_jd, example_iphone_pdd]
     = Inr [example_iphone_jd, example_case_jd]
   \<and> remove_duplicates example_builtins [example_iphone_jd, example_case_jd]
     = Inr [example_iphone_jd, example_case_jd]"
  using remove_duplicates_idempotent [OF example_products_dedup] example_products_dedup
  by simp

section \<open>Properties of sorting\<close>

lemma py_lt_num: "num_of a = Some x \<Longrightarrow> num_of b = Some y \<Longrightarrow> py_lt a b = Inr (x < y)"
  by (cases a; cases b) simp_all

lemma py_lt_no_num: "num_of a = None \<Longrightarrow> py_lt a b = (case (a, b) of (PStr s, PStr t) \<Rightarrow> Inr (s < t) | _ \<Rightarrow> Inl TypeError)"
  by (cases a; cases b) simp_all

lemma py_lt_no_num2: "num_of b = None \<Longrightarrow> py_lt a b = (case (a, b) of (PStr s, PStr t) \<Rightarrow> Inr (s < t) | _ \<Rightarrow> Inl TypeError)"
  by (cases a; cases b) simp_all

lemma ext_le_refl: "ext_le x x"
  by (cases x) simp_all

lemma ext_le_trans: "ext_le x y \<Longrightarrow> ext_le y z \<Longrightarrow> ext_le x z"
  by (cases x; cases y; cases z) simp_all

lemma ext_le_total: "ext_le x y \<or> ext_le y x"
  by (cases x; cases y) auto

lemma key_lt_num: "key_num a = Some x \<Longrightarrow> key_num b = Some y \<Longrightarrow> key_lt a b = Inr (\<not> ext_le y x)"
  by (cases a; cases b) (auto simp: py_lt_num split: option.splits)

lemma key_lt_str: "key_str a = Some s \<Longrightarrow> key_str b = Some t \<Longrightarrow> key_lt a b = Inr (s < t)"
  by (cases a rule: key_str.cases; cases b rule: key_str.cases) simp_all

lemma key_lt_Inr:
  "key_lt a b = Inr r \<Longrightarrow>
     (\<exists>x y. key_num a = Some x \<and> key_num b = Some y) \<or>
     (\<exists>s t. key_str a = Some s \<and> key_str b = Some t)"
proof (cases a)
  case (Key v)
  note a = this
  show "key_lt a b = Inr r \<Longrightarrow> ?thesis"
  proof (cases b)
    case (Key w)
    assume "key_lt a b = Inr r"
    with a Key have lt: "py_lt v w = Inr r" by simp
    show ?thesis
    proof (cases "num_of v")
      case None
      with lt obtain s t where "v = PStr s" "w = PStr t"
        by (auto simp: py_lt_no_num split: pyval.splits)
      with a Key show ?thesis by simp
    next
      case (Some x)
      show ?thesis
      proof (cases "num_of w")
        case None
        with lt obtain s t where "v = PStr s" "w = PStr t"
          by (auto simp: py_lt_no_num2 split: pyval.splits)
        with a Key show ?thesis by simp
      next
        case (Some y)
        with \<open>num_of v = Some x\<close> a Key show ?thesis by simp
      qed
    qed
  next
    case KeyInf
    assume "key_lt a b = Inr r"
    with a KeyInf show ?thesis by (auto split: option.splits)
  qed
next
  case KeyInf
  then show "key_lt a b = Inr r \<Longrightarrow> ?thesis"
    by (cases b) (auto split: option.splits)
qed

lemma key_num_str_disjoint: "key_num a = Some x \<Longrightarrow> key_str a = Some s \<Longrightarrow> False"
  by (cases a rule: key_str.cases) simp_all

lemma key_le_trans:
  assumes "key_le a b" and "key_le b c"
  shows "key_le a c"
proof -
  from assms have ba: "key_lt b a = Inr False" and cb: "key_lt c b = Inr False"
    by (simp_all add: key_le_def)
  from key_lt_Inr [OF ba] show ?thesis
  proof
    assume "\<exists>x y. key_num b = Some x \<and> key_num a = Some y"
    then obtain y x where b: "key_num b = Some y" and a: "key_num a = Some x" by blast
    from key_lt_Inr [OF cb] b obtain z where c: "key_num c = Some z"
      by (auto dest: key_num_str_disjoint)
    from ba cb have "ext_le x y" "ext_le y z"
      by (simp_all add: key_lt_num [OF b a] key_lt_num [OF c b])
    then have "ext_le x z" by (rule ext_le_trans)
    then show ?thesis by (simp add: key_le_def key_lt_num [OF c a])
  next
    assume "\<exists>s t. key_str b = Some s \<and> key_str a = Some t"
    then obtain t s where b: "key_str b = Some t" and a: "key_str a = Some s" by blast
    from key_lt_Inr [OF cb] b obtain u where c: "key_str c = Some u"
      by (auto dest: key_num_str_disjoint)
    from ba cb have "\<not> t < s" "\<not> u < t"
      by (simp_all add: key_lt_str [OF b a] key_lt_str [OF c b])
    then have "\<not> u < s" by auto
    then show ?thesis by (simp add: key_le_def key_lt_str [OF c a])
  qed
qed

lemma key_lt_imp_le:
  assumes "key_lt a b = Inr True"
  shows "key_le a b"
proof -
  from key_lt_Inr [OF assms] show ?thesis
  proof
    assume "\<exists>x y. key_num a = Some x \<and> key_num b = Some y"
    then obtain x y where a: "key_num a = Some x" and b: "key_num b = Some y" by blast
    from assms have "\<not> ext_le y x" by (simp add: key_lt_num [OF a b])
    then have "ext_le x y" using ext_le_total [of x y] by simp
    then show ?thesis by (simp add: key_le_def key_lt_num [OF b a])
  next
    assume "\<exists>s t. key_str a = Some s \<and> key_str b = Some t"
    then obtain s t where a: "key_str a = Some s" and b: "key_str b = Some t" by blast
    from assms have "s < t" by (simp add: key_lt_str [OF a b])
    then have "\<not> t < s" by auto
    then show ?thesis by (simp add: key_le_def key_lt_str [OF b a])
  qed
qed

lemma py_insort_sorted:
  "py_insort f x ys = Inr zs \<Longrightarrow> sorted_wrt (\<lambda>a b. key_le (f a) (f b)) ys \<Longrightarrow>
   sorted_wrt (\<lambda>a b. key_le (f a) (f b)) zs \<and> mset zs = add_mset x (mset ys)"
proof (induction ys arbitrary: zs)
  case Nil
  then show ?case by auto
next
  case (Cons y ys)
  from Cons.prems(1) obtain b where b: "key_lt (f y) (f x) = Inr b"
    by (auto split: sum.splits)
  show ?case
  proof (cases b)
    case True
    with b Cons.prems(1) obtain zs' where zs': "py_insort f x ys = Inr zs'" "zs = y # zs'"
      by (auto split: sum.splits)
    from Cons.prems(2) have sys: "sorted_wrt (\<lambda>a b. key_le (f a) (f b)) ys"
      and yle: "\<forall>z\<in>set ys. key_le (f y) (f z)" by simp_all
    from Cons.IH [OF zs'(1) sys]
    have szs: "sorted_wrt (\<lambda>a b. key_le (f a) (f b)) zs'" and m: "mset zs' = add_mset x (mset ys)"
      by simp_all
    from m have "set zs' = insert x (set ys)"
      by (metis set_mset_add_mset_insert set_mset_mset)
    moreover have "key_le (f y) (f x)" using b True by (simp add: key_lt_imp_le)
    ultimately have "\<forall>z\<in>set zs'. key_le (f y) (f z)" using yle by simp
    with szs m zs'(2) show ?thesis by simp
  next
    case False
    with b Cons.prems(1) have zs: "zs = x # y # ys" by simp
    have xy: "key_le (f x) (f y)" using b False by (simp add: key_le_def)
    from Cons.prems(2) have "\<forall>z\<in>set ys. key_le (f y) (f z)" by simp
    with xy have "\<forall>z\<in>set ys. key_le (f x) (f z)" by (blast intro: key_le_trans)
    with xy Cons.prems(2) zs show ?thesis by simp
  qed
qed

lemma py_sorted_sorted:
  "py_sorted f xs = Inr ys \<Longrightarrow>
   sorted_wrt (\<lambda>a b. key_le (f a) (f b)) ys \<and> mset ys = mset xs"
proof (induction xs arbitrary: ys)
  case Nil
  then show ?case by simp
next
  case (Cons x xs)
  from Cons.prems obtain ys' where ys': "py_sorted f xs = Inr ys'" "py_insort f x ys' = Inr ys"
    by (auto split: sum.splits)
  from Cons.IH [OF ys'(1)] py_insort_sorted [OF ys'(2)] show ?case by simp
qed

lemma py_insort_num:
  "key_num (f x) \<noteq> None \<Longrightarrow> list_all (\<lambda>x. key_num (f x) \<noteq> None) ys \<Longrightarrow>
   \<exists>zs. py_insort f x ys = Inr zs"
  by (induction ys) (auto simp: key_lt_num)

lemma py_insort_str:
  "key_str (f x) \<noteq> None \<Longrightarrow> list_all (\<lambda>x. key_str (f x) \<noteq> None) ys \<Longrightarrow>
   \<exists>zs. py_insort f x ys = Inr zs"
  by (induction ys) (auto simp: key_lt_str)

lemma py_sorted_num:
  "list_all (\<lambda>x. key_num (f x) \<noteq> None) xs \<Longrightarrow> \<exists>ys. py_sorted f xs = Inr ys"
proof (induction xs)
  case Nil
  show ?case by simp
next
  case (Cons x xs)
  then obtain ys where ys: "py_sorted f xs = Inr ys" by auto
  then have "mset ys = mset xs" by (simp add: py_sorted_sorted)
  then have "set ys = set xs" by (metis set_mset_mset)
  with Cons.prems have "list_all (\<lambda>x. key_num (f x) \<noteq> None) ys" by (simp add: list_all_iff)
  with Cons.prems py_insort_num [of f x ys] ys show ?case by auto
qed

lemma py_sorted_str:
  "list_all (\<lambda>x. key_str (f x) \<noteq> None) xs \<Longrightarrow> \<exists>ys. py_sorted f xs = Inr ys"
proof (induction xs)
  case Nil
  show ?case by simp
next
  case (Cons x xs)
  then obtain ys where ys: "py_sorted f xs = Inr ys" by auto
  then have "mset ys = mset xs" by (simp add: py_sorted_sorted)
  then have "set ys = set xs" by (metis set_mset_mset)
  with Cons.prems have "list_all (\<lambda>x. key_str (f x) \<noteq> None) ys" by (simp add: list_all_iff)
  with Cons.prems py_insort_str [of f x ys] ys show ?case by auto
qed

lemma price_key_num: "price_is_num p \<Longrightarrow> key_num (price_key p) = Some (price_num p)"
  by (cases "price p") (auto simp: price_is_num_def price_key_def price_num_def)

lemma title_key_str: "title_is_str p \<Longrightarrow> key_str (title_key p) = Some (str_or_empty (title p))"
  by (auto simp: title_is_str_def title_key_def str_or_empty_def dict_get_def
           split: option.splits pyval.splits)

lemma platform_key_str:
  "platform_is_str p \<Longrightarrow> key_str (platform_key p) = Some (str_or_empty (platform p))"
  by (auto simp: platform_is_str_def platform_key_def str_or_empty_def dict_get_def
           split: option.splits pyval.splits)

lemma key_le_price:
  "price_is_num a \<Longrightarrow> price_is_num b \<Longrightarrow>
   key_le (price_key a) (price_key b) = ext_le (price_num a) (price_num b)"
  by (simp add: key_le_def key_lt_num [OF price_key_num price_key_num])

lemma key_le_str:
  "key_str a = Some s \<Longrightarrow> key_str b = Some t \<Longrightarrow> key_le a b = (s \<le> t)"
  by (auto simp: key_le_def key_lt_str)

lemma py_sorted_perm_set: "py_sorted f xs = Inr ys \<Longrightarrow> set ys = set xs"
  by (metis py_sorted_sorted set_mset_mset)

lemma py_sorted_price:
  assumes "list_all price_is_num ps"
  shows "\<exists>qs. py_sorted price_key ps = Inr qs \<and> mset qs = mset ps
            \<and> sorted_wrt (\<lambda>a b. ext_le (price_num a) (price_num b)) qs"
proof -
  from assms have "list_all (\<lambda>x. key_num (price_key x) \<noteq> None) ps"
    by (simp add: list_all_iff price_key_num)
  then obtain qs where qs: "py_sorted price_key ps = Inr qs" using py_sorted_num by blast
  then have s: "sorted_wrt (\<lambda>a b. key_le (price_key a) (price_key b)) qs" and m: "mset qs = mset ps"
    by (simp_all add: py_sorted_sorted)
  from assms py_sorted_perm_set [OF qs] have "\<forall>q\<in>set qs. price_is_num q"
    by (simp add: list_all_iff)
  then have "sorted_wrt (\<lambda>a b. ext_le (price_num a) (price_num b)) qs"
    using s by (auto intro: sorted_wrt_mono_rel [rotated] simp: key_le_price)
  with qs m show ?thesis by blast
qed

lemma py_sorted_str_field:
  assumes "list_all (\<lambda>p. key_str (f p) = Some (g p)) ps"
  shows "\<exists>qs. py_sorted f ps = Inr qs \<and> mset qs = mset ps
            \<and> sorted_wrt (\<lambda>a b. g a \<le> g b) qs"
proof -
  from assms have "list_all (\<lambda>x. key_str (f x) \<noteq> None) ps"
    by (simp add: list_all_iff)
  then obtain qs where qs: "py_sorted f ps = Inr qs" using py_sorted_str by blast
  then have s: "sorted_wrt (\<lambda>a b. key_le (f a) (f b)) qs" and m: "mset qs = mset ps"
    by (simp_all add: py_sorted_sorted)
  from assms py_sorted_perm_set [OF qs] have "\<forall>q\<in>set qs. key_str (f q) = Some (g q)"
    by (simp add: list_all_iff)
  then have "sorted_wrt (\<lambda>a b. g a \<le> g b) qs"
    using s by (auto intro: sorted_wrt_mono_rel [rotated] simp: key_le_str)
  with qs m show ?thesis by blast
qed

lemma sort_products_mset:
  "sort_products ps sort_by = Inr qs \<Longrightarrow> mset qs = mset ps"
  by (auto simp: sort_products_def py_sorted_sorted split: if_splits)

lemma sort_products_ascending:
  assumes "sortable sort_by ps"
  shows "\<exists>qs. sort_products ps sort_by = Inr qs
            \<and> (if sort_by \<in> {PStr ''price'', PStr ''platform'', PStr ''title''}
                then ascending sort_by qs else qs = ps)"
proof -
  consider (price) "sort_by = PStr ''price''" | (platform) "sort_by = PStr ''platform''"
    | (title) "sort_by = PStr ''title''"
    | (other) "sort_by \<notin> {PStr ''price'', PStr ''platform'', PStr ''title''}"
    by blast
  then show ?thesis
  proof cases
    case price
    with assms have "list_all price_is_num ps" by (simp add: sortable_def)
    from py_sorted_price [OF this] price show ?thesis
      by (auto simp: sort_products_def ascending_def)
  next
    case platform
    with assms have "list_all platform_is_str ps" by (simp add: sortable_def)
    then have "list_all (\<lambda>p. key_str (platform_key p) = Some (str_or_empty (platform p))) ps"
      by (simp add: list_all_iff platform_key_str)
    from py_sorted_str_field [OF this] platform show ?thesis
      by (auto simp: sort_products_def ascending_def)
  next
    case title
    with assms have "list_all title_is_str ps" by (simp add: sortable_def)
    then have "list_all (\<lambda>p. key_str (title_key p) = Some (str_or_empty (title p))) ps"
      by (simp add: list_all_iff title_key_str)
    from py_sorted_str_field [OF this] title show ?thesis
      by (auto simp: sort_products_def ascending_def)
  next
    case other
    then show ?thesis by (simp add: sort_products_def)
  qed
qed

text \<open>
  C8. Whenever \<^verbatim>\<open>sort_products\<close> returns, it returns a permutation of its input. It
  returns when the field named by \<open>sort_by\<close> has its type in every product, and the
  result then ascends by price for \<^verbatim>\<open>'price'\<close>, a missing price counting as \<open>+\<infinity>\<close>, and
  lexicographically by platform or title for \<^verbatim>\<open>'platform'\<close> and \<^verbatim>\<open>'title'\<close>, a missing
  value counting as the empty string. For any other \<open>sort_by\<close> it returns the input
  itself, whatever the products are.
\<close>

theorem sort_products_permutation:
  "(\<forall>qs. sort_products ps sort_by = Inr qs \<longrightarrow> mset qs = mset ps)
   \<and> (sortable sort_by ps \<longrightarrow>
        (\<exists>qs. sort_products ps sort_by = Inr qs \<and> mset qs = mset ps
           \<and> (if sort_by \<in> {PStr ''price'', PStr ''platform'', PStr ''title''}
               then ascending sort_by qs else qs = ps)))
   \<and> (if sort_by \<in> {PStr ''price'', PStr ''platform'', PStr ''title''} then True
       else sort_products ps sort_by = Inr ps)"
proof (intro conjI allI impI)
  fix qs assume "sort_products ps sort_by = Inr qs"
  then show "mset qs = mset ps" by (rule sort_products_mset)
next
  assume "sortable sort_by ps"
  from sort_products_ascending [OF this] obtain qs where
    qs: "sort_products ps sort_by = Inr qs"
        "if sort_by \<in> {PStr ''price'', PStr ''platform'', PStr ''title''}
         then ascending sort_by qs else qs = ps"
    by blast
  from qs(1) have "mset qs = mset ps" by (rule sort_products_mset)
  with qs show "\<exists>qs. sort_products ps sort_by = Inr qs \<and> mset qs = mset ps
           \<and> (if sort_by \<in> {PStr ''price'', PStr ''platform'', PStr ''title''}
               then ascending sort_by qs else qs = ps)"
    by blast
next
  show "if sort_by \<in> {PStr ''price'', PStr ''platform'', PStr ''title''} then True
        else sort_products ps sort_by = Inr ps"
    by (simp add: sort_products_def)
qed

lemmas sort_eval = sort_products_def price_key_def title_key_def platform_key_def dict_get_def

theorem sort_products_permutation_witness:
  "sortable (PStr ''price'') [example_iphone_jd, example_no_price, example_case_jd, example_free]
   \<and> sort_products [example_iphone_jd, example_no_price, example_case_jd, example_free]
        (PStr ''price'')
       = Inr [example_free, example_case_jd, example_iphone_jd, example_no_price]
   \<and> ascending (PStr ''price'')
        [example_free, example_case_jd, example_iphone_jd, example_no_price]"
proof -
  let ?ps = "[example_iphone_jd, example_no_price, example_case_jd, example_free]"
  have h: "sortable (PStr ''price'') ?ps"
    by (simp add: sortable_def price_is_num_def example_defs)
  have e: "sort_products ?ps (PStr ''price'')
             = Inr [example_free, example_case_jd, example_iphone_jd, example_no_price]"
    by (simp add: sort_eval example_defs)
  from sort_products_permutation [of ?ps "PStr ''price''"] h
  obtain qs where "sort_products ?ps (PStr ''price'') = Inr qs"
    "if PStr ''price'' \<in> {PStr ''price'', PStr ''platform'', PStr ''title''}
     then ascending (PStr ''price'') qs else qs = ?ps"
    by blast
  with e h show ?thesis by simp
qed

lemma sort_title_example:
  "sort_products [example_iphone_jd, example_no_price, example_case_jd, example_iphone_pdd,
                  example_free\<lparr>title := None\<rparr>] (PStr ''title'')
     = Inr [example_free\<lparr>title := None\<rparr>, example_iphone_pdd, example_case_jd, example_no_price,
            example_iphone_jd]"
  by (simp add: sort_eval example_defs)

lemma sort_other_example:
  "sort_products [example_iphone_jd, example_no_title, example_text_price] (PStr ''shop'')
     = Inr [example_iphone_jd, example_no_title, example_text_price]"
  by (simp add: sort_eval)

lemma sort_mixed_raises:
  "sort_products [example_iphone_jd, example_text_price] (PStr ''price'') = Inl TypeError"
  by (simp add: sort_eval example_defs)

section \<open>Properties of the price analysis\<close>

lemma py_eq_refl: "py_eq a a"
  by (cases a) simp_all

lemma py_eq_sym: "py_eq a b \<Longrightarrow> py_eq b a"
  by (cases a; cases b) simp_all

lemma py_eq_trans: "py_eq a b \<Longrightarrow> py_eq b c \<Longrightarrow> py_eq a c"
  by (cases a; cases b; cases c) simp_all

lemma price_is_num_lt:
  "price_is_num p \<Longrightarrow> py_lt (PInt 0) (dict_get (price p) (PInt 0)) = Inr (0 < price_value p)"
  by (cases "price p")
     (auto simp: price_is_num_def price_value_def num_val_def dict_get_def py_lt_num)

lemma not_price_is_num_lt:
  "\<not> price_is_num p \<Longrightarrow> py_lt (PInt 0) (dict_get (price p) (PInt 0)) = Inl TypeError"
  by (cases "price p") (auto simp: price_is_num_def dict_get_def py_lt_no_num2)

lemma positive_prices_num:
  "list_all price_is_num ps \<Longrightarrow>
   positive_prices ps = Inr (filter (\<lambda>x. 0 < x) (map price_value ps))"
  by (induction ps) (simp_all add: price_is_num_lt del: py_lt.simps, simp add: price_value_def)

lemma positive_prices_Inr: "positive_prices ps = Inr xs \<Longrightarrow> list_all price_is_num ps"
proof (induction ps arbitrary: xs)
  case Nil
  show ?case by simp
next
  case (Cons p ps)
  have "price_is_num p"
  proof (rule ccontr)
    assume "\<not> price_is_num p"
    from not_price_is_num_lt [OF this] Cons.prems show False by (simp del: py_lt.simps)
  qed
  moreover from Cons.prems obtain ys where "positive_prices ps = Inr ys"
    by (auto split: sum.splits)
  ultimately show ?case using Cons.IH by simp
qed

lemma lookup_eq_group_append:
  "lookup_eq k (group_append k' v d) =
     (if py_eq k' k then Some (dict_get (lookup_eq k d) [] @ [v]) else lookup_eq k d)"
proof (induction d)
  case Nil
  show ?case by (simp add: dict_get_def)
next
  case (Cons kv d)
  obtain k'' vs where kv: "kv = (k'', vs)" by (cases kv)
  show ?case
  proof (cases "py_eq k'' k'")
    case True
    then have "py_eq k'' k = py_eq k' k"
      by (blast intro: py_eq_trans py_eq_sym)
    with True kv show ?thesis by (simp add: dict_get_def)
  next
    case False
    then have "py_eq k'' k \<Longrightarrow> \<not> py_eq k' k"
      by (blast intro: py_eq_trans py_eq_sym)
    with False kv Cons.IH show ?thesis by (auto simp: dict_get_def)
  qed
qed

lemma group_prices_num:
  "list_all price_is_num ps \<Longrightarrow>
   \<exists>d'. group_prices ps d = Inr d' \<and>
        (\<forall>k. lookup_eq k d' =
               (if platform_prices k ps = [] then lookup_eq k d
                else Some (dict_get (lookup_eq k d) [] @ platform_prices k ps)))"
proof (induction ps arbitrary: d)
  case Nil
  show ?case by (simp add: platform_prices_def)
next
  case (Cons p ps)
  then have p: "price_is_num p" and ps: "list_all price_is_num ps" by simp_all
  let ?d1 = "if 0 < price_value p
             then group_append (platform_or_unknown p) (price_value p) d else d"
  from Cons.IH [OF ps, of ?d1] obtain d' where
    d': "group_prices ps ?d1 = Inr d'"
    and l: "\<And>k. lookup_eq k d' =
               (if platform_prices k ps = [] then lookup_eq k ?d1
                else Some (dict_get (lookup_eq k ?d1) [] @ platform_prices k ps))"
    by blast
  have g: "group_prices (p # ps) d = Inr d'"
    using d' by (simp add: price_is_num_lt [OF p] del: py_lt.simps)
      (auto simp: platform_or_unknown_def price_value_def)
  have "lookup_eq k d' =
          (if platform_prices k (p # ps) = [] then lookup_eq k d
           else Some (dict_get (lookup_eq k d) [] @ platform_prices k (p # ps)))" for k
    by (simp add: l [of k] lookup_eq_group_append platform_prices_def dict_get_def)
  with g show ?case by blast
qed

lemma lookup_eq_map:
  "lookup_eq k (map (\<lambda>(k, vs). (k, f vs)) d) = map_option f (lookup_eq k d)"
  by (induction d) auto

lemma sum_list_sort: "sum_list (sort xs) = sum_list (xs :: real list)"
  by (metis mset_sort sum_mset_sum_list)

lemma analyze_prices_zero:
  assumes "list_all price_is_num ps" and "positive_values ps = []"
  shows "analyze_prices ps = Inr zero_analysis"
  using assms
  by (simp add: analyze_prices_def positive_prices_num positive_values_def)

lemma analyze_prices_nonzero:
  assumes num: "list_all price_is_num ps" and pos: "positive_values ps \<noteq> []"
  shows "\<exists>bp. analyze_prices ps =
           Inr \<lparr>pa_count = length (positive_values ps),
                pa_min = Min (set (positive_values ps)),
                pa_max = Max (set (positive_values ps)),
                pa_average = sum_list (positive_values ps) / real (length (positive_values ps)),
                pa_median = median_of (sort (positive_values ps)),
                pa_by_platform = Some bp\<rparr>
          \<and> (\<forall>k. lookup_eq k bp =
                 (if platform_prices k ps = [] then None
                  else Some (stats_of (platform_prices k ps))))"
proof -
  from pos have ne: "ps \<noteq> []" by (auto simp: positive_values_def)
  from group_prices_num [OF num, of "[]"] obtain d where
    d: "group_prices ps [] = Inr d"
    and l: "\<And>k. lookup_eq k d =
              (if platform_prices k ps = [] then None else Some (platform_prices k ps))"
    by (auto simp: dict_get_def)
  let ?bp = "map (\<lambda>(k, vs). (k, stats_of vs)) d"
  have "lookup_eq k ?bp =
          (if platform_prices k ps = [] then None else Some (stats_of (platform_prices k ps)))"
    for k
    by (simp add: lookup_eq_map l)
  moreover have "analyze_prices ps =
           Inr \<lparr>pa_count = length (positive_values ps),
                pa_min = Min (set (positive_values ps)),
                pa_max = Max (set (positive_values ps)),
                pa_average = sum_list (positive_values ps) / real (length (positive_values ps)),
                pa_median = median_of (sort (positive_values ps)),
                pa_by_platform = Some ?bp\<rparr>"
    using ne pos d
    by (simp add: analyze_prices_def positive_prices_num [OF num] positive_values_def
          sum_list_sort Let_def)
  ultimately show ?thesis by blast
qed


lemmas analysis_eval =
  analyze_prices_def median_of_def stats_of_def num_val_def dict_get_def Let_def

lemma median_odd_example:
  "map_sum id pa_median
     (analyze_prices [example_priced 30 ''jd'', example_priced 10 ''pdd'', example_priced 20 ''jd''])
   = Inr 20"
  by (simp add: analysis_eval example_priced_def)

lemma median_even_example:
  "map_sum id pa_median
     (analyze_prices [example_priced 30 ''jd'', example_priced 10 ''pdd'',
                      example_priced 40 ''pdd'', example_priced 20 ''jd''])
   = Inr 25"
  by (simp add: analysis_eval example_priced_def)



section \<open>Properties of FilterAgent.execute\<close>

lemma filter_failed_status: "fr_status (filter_failed ps e) \<noteq> ''success''"
  by (simp add: filter_failed_def)

lemma execute_unfold:
  "execute py task =
     (case after_dedup py task of
        Inl e \<Rightarrow> filter_failed (after_price_filter task) e
      | Inr p2 \<Rightarrow>
     (case sort_products p2 (dict_get (ft_sort_by task) (PStr ''price'')) of
        Inl e \<Rightarrow> filter_failed p2 e
      | Inr p3 \<Rightarrow>
     (case analyze_prices p3 of
        Inl e \<Rightarrow> filter_failed p3 e
      | Inr a \<Rightarrow>
     (case find_best_deals p3 5 of
        Inl e \<Rightarrow> filter_failed p3 e
      | Inr bd \<Rightarrow>
          \<lparr>fr_status = ''success'', fr_filtered_products = p3,
           fr_original_count = length (dict_get (ft_products task) []),
           fr_filtered_count = length p3,
           fr_price_analysis = Some a, fr_best_deals = Some bd, fr_error = None\<rparr>))))"
  unfolding execute_def after_dedup_def after_price_filter_def Let_def
  by (rule refl)

lemma execute_cases:
  obtains
    (dedup) e where "after_dedup py task = Inl e"
      "execute py task = filter_failed (after_price_filter task) e"
  | (sort) p2 e where "after_dedup py task = Inr p2"
      "sort_products p2 (dict_get (ft_sort_by task) (PStr ''price'')) = Inl e"
      "execute py task = filter_failed p2 e"
  | (analysis) p2 p3 e where "after_dedup py task = Inr p2"
      "sort_products p2 (dict_get (ft_sort_by task) (PStr ''price'')) = Inr p3"
      "analyze_prices p3 = Inl e"
      "execute py task = filter_failed p3 e"
  | (deals) p2 p3 a e where "after_dedup py task = Inr p2"
      "sort_products p2 (dict_get (ft_sort_by task) (PStr ''price'')) = Inr p3"
      "analyze_prices p3 = Inr a" "find_best_deals p3 5 = Inl e"
      "execute py task = filter_failed p3 e"
  | (success) p2 p3 a bd where "after_dedup py task = Inr p2"
      "sort_products p2 (dict_get (ft_sort_by task) (PStr ''price'')) = Inr p3"
      "analyze_prices p3 = Inr a" "find_best_deals p3 5 = Inr bd"
      "execute py task =
         \<lparr>fr_status = ''success'', fr_filtered_products = p3,
          fr_original_count = length (dict_get (ft_products task) []),
          fr_filtered_count = length p3,
          fr_price_analysis = Some a, fr_best_deals = Some bd, fr_error = None\<rparr>"
proof (cases "after_dedup py task")
  case (Inl e)
  then have "execute py task = filter_failed (after_price_filter task) e"
    by (simp add: execute_unfold)
  with Inl show ?thesis by (rule dedup)
next
  case p2: (Inr p2)
  show ?thesis
  proof (cases "sort_products p2 (dict_get (ft_sort_by task) (PStr ''price''))")
    case (Inl e)
    with p2 have "execute py task = filter_failed p2 e"
      by (simp add: execute_unfold)
    with p2 Inl show ?thesis by (rule sort)
  next
    case p3: (Inr p3)
    show ?thesis
    proof (cases "analyze_prices p3")
      case (Inl e)
      with p2 p3 have "execute py task = filter_failed p3 e"
        by (simp add: execute_unfold)
      with p2 p3 Inl show ?thesis by (rule analysis)
    next
      case a: (Inr a)
      show ?thesis
      proof (cases "find_best_deals p3 5")
        case (Inl e)
        with p2 p3 a have "execute py task = filter_failed p3 e"
          by (simp add: execute_unfold)
        with p2 p3 a Inl show ?thesis by (rule deals)
      next
        case (Inr bd)
        with p2 p3 a have "execute py task =
           \<lparr>fr_status = ''success'', fr_filtered_products = p3,
            fr_original_count = length (dict_get (ft_products task) []),
            fr_filtered_count = length p3,
            fr_price_analysis = Some a, fr_best_deals = Some bd, fr_error = None\<rparr>"
          by (simp add: execute_unfold)
        with p2 p3 a Inr show ?thesis by (rule success)
      qed
    qed
  qed
qed

lemma execute_success:
  assumes "fr_status (execute py task) = ''success''"
  shows "\<exists>p3 a bd. analyze_prices p3 = Inr a \<and> find_best_deals p3 5 = Inr bd
          \<and> execute py task =
              \<lparr>fr_status = ''success'', fr_filtered_products = p3,
               fr_original_count = length (dict_get (ft_products task) []),
               fr_filtered_count = length p3,
               fr_price_analysis = Some a, fr_best_deals = Some bd, fr_error = None\<rparr>"
proof (cases py task rule: execute_cases)
  case (success p2 p3 a bd)
  then show ?thesis by blast
qed (use assms filter_failed_status in auto)

lemma analyze_prices_Inr:
  "analyze_prices ps = Inr a \<Longrightarrow> list_all price_is_num ps"
  by (cases "ps = []")
     (auto simp: analyze_prices_def Let_def split: sum.splits if_splits
           dest: positive_prices_Inr)

lemma slice_to_nonneg: "0 \<le> n \<Longrightarrow> slice_to xs n = take (nat n) xs"
  by (simp add: slice_to_def)

lemma find_best_deals_price:
  assumes "list_all price_is_num ps"
  shows "\<exists>s. py_sorted price_key ps = Inr s \<and> mset s = mset ps
           \<and> sorted_wrt (\<lambda>a b. ext_le (price_num a) (price_num b)) s
           \<and> find_best_deals ps n = Inr (slice_to s n)"
proof -
  from py_sorted_price [OF assms] obtain s where
    s: "py_sorted price_key ps = Inr s" "mset s = mset ps"
       "sorted_wrt (\<lambda>a b. ext_le (price_num a) (price_num b)) s"
    by blast
  have "find_best_deals ps n = Inr (slice_to s n)"
  proof (cases "ps = []")
    case True
    with s(2) show ?thesis by (simp add: find_best_deals_def slice_to_def)
  next
    case False
    with s(1) show ?thesis by (simp add: find_best_deals_def)
  qed
  with s show ?thesis by blast
qed

lemma sorted_wrt_take: "sorted_wrt R xs \<Longrightarrow> sorted_wrt R (take n xs)"
  by (induction xs arbitrary: n) (auto simp: take_Cons split: nat.splits dest: in_set_takeD)

text \<open>
  C5. When \<^verbatim>\<open>FilterAgent.execute\<close> succeeds, whatever \<open>sort_by\<close> is, the best deals are
  the first five elements of the filtered products sorted by price, a missing price
  counting as \<open>+\<infinity>\<close>: their number is the minimum of five and the filtered count, and
  their prices do not decrease.
\<close>

theorem best_deals_cheapest_first:
  assumes "fr_status (execute py task) = ''success''"
  shows "\<exists>s. py_sorted price_key (fr_filtered_products (execute py task)) = Inr s
           \<and> fr_best_deals (execute py task) = Some (take 5 s)
           \<and> length (take 5 s) = min 5 (fr_filtered_count (execute py task))
           \<and> sorted_wrt (\<lambda>a b. ext_le (price_num a) (price_num b)) (take 5 s)"
proof -
  from execute_success [OF assms] obtain p3 a bd where
    a: "analyze_prices p3 = Inr a" and bd: "find_best_deals p3 5 = Inr bd"
    and e: "execute py task =
              \<lparr>fr_status = ''success'', fr_filtered_products = p3,
               fr_original_count = length (dict_get (ft_products task) []),
               fr_filtered_count = length p3,
               fr_price_analysis = Some a, fr_best_deals = Some bd, fr_error = None\<rparr>"
    by blast
  from a have "list_all price_is_num p3" by (rule analyze_prices_Inr)
  from find_best_deals_price [OF this, of 5] obtain s where
    s: "py_sorted price_key p3 = Inr s" "mset s = mset p3"
       "sorted_wrt (\<lambda>a b. ext_le (price_num a) (price_num b)) s"
       "find_best_deals p3 5 = Inr (slice_to s 5)"
    by blast
  from s(4) bd have bd5: "bd = take 5 s" by (simp add: slice_to_def)
  from s(2) have "length s = length p3" by (metis size_mset)
  then have "length (take 5 s) = min 5 (length p3)" by simp
  moreover have "sorted_wrt (\<lambda>a b. ext_le (price_num a) (price_num b)) (take 5 s)"
    using s(3) by (rule sorted_wrt_take)
  ultimately show ?thesis using s(1) bd5 by (simp add: e)
qed

lemmas execute_eval =
  execute_def price_filter_step_def filter_by_price_def validate_price_def chained_0_lt_le_def
  remove_duplicates_def product_key_def title_lower_strip_def find_best_deals_def slice_to_def
  empty_criteria_def filter_failed_def

lemma execute_title_example:
  "execute example_builtins
     (example_task [example_iphone_jd, example_priced 5 ''jd'', example_case_jd,
        example_iphone_pdd, example_priced 30 ''pdd'', example_priced 10 ''jd'',
        example_priced 9000 ''pdd'', example_priced 40 ''jd'', example_priced 1 ''pdd'']
        (Some (PInt 8999)) ''platform'')
   = \<lparr>fr_status = ''success'',
      fr_filtered_products =
        [example_iphone_jd, example_priced 5 ''jd'', example_case_jd, example_priced 10 ''jd'',
         example_priced 40 ''jd'', example_priced 30 ''pdd'', example_priced 1 ''pdd''],
      fr_original_count = 9, fr_filtered_count = 7,
      fr_price_analysis =
        Some \<lparr>pa_count = 7, pa_min = 1, pa_max = 7999, pa_average = 8105 / 7, pa_median = 20,
              pa_by_platform =
                Some [(PStr ''jd'', \<lparr>ps_count = 5, ps_average = 8074 / 5, ps_min = 5,
                                      ps_max = 7999\<rparr>),
                      (PStr ''pdd'', \<lparr>ps_count = 2, ps_average = 31 / 2, ps_min = 1,
                                       ps_max = 30\<rparr>)]\<rparr>,
      fr_best_deals =
        Some [example_priced 1 ''pdd'', example_priced 5 ''jd'', example_priced 10 ''jd'',
              example_case_jd, example_priced 30 ''pdd''],
      fr_error = None\<rparr>"
  by (simp add: execute_eval sort_eval analysis_eval string_eval example_task_def
        example_priced_def example_defs)

theorem best_deals_cheapest_first_witness:
  "fr_status (execute example_builtins
     (example_task [example_iphone_jd, example_priced 5 ''jd'', example_case_jd,
        example_iphone_pdd, example_priced 30 ''pdd'', example_priced 10 ''jd'',
        example_priced 9000 ''pdd'', example_priced 40 ''jd'', example_priced 1 ''pdd'']
        (Some (PInt 8999)) ''platform'')) = ''success''
   \<and> (\<exists>s. fr_best_deals (execute example_builtins
     (example_task [example_iphone_jd, example_priced 5 ''jd'', example_case_jd,
        example_iphone_pdd, example_priced 30 ''pdd'', example_priced 10 ''jd'',
        example_priced 9000 ''pdd'', example_priced 40 ''jd'', example_priced 1 ''pdd'']
        (Some (PInt 8999)) ''platform'')) = Some (take 5 s)
      \<and> take 5 s = [example_priced 1 ''pdd'', example_priced 5 ''jd'', example_priced 10 ''jd'',
              example_case_jd, example_priced 30 ''pdd''])"
proof -
  let ?t = "example_task [example_iphone_jd, example_priced 5 ''jd'', example_case_jd,
        example_iphone_pdd, example_priced 30 ''pdd'', example_priced 10 ''jd'',
        example_priced 9000 ''pdd'', example_priced 40 ''jd'', example_priced 1 ''pdd'']
        (Some (PInt 8999)) ''platform''"
  have h: "fr_status (execute example_builtins ?t) = ''success''"
    by (simp add: execute_title_example)
  from best_deals_cheapest_first [OF h] obtain s where
    "fr_best_deals (execute example_builtins ?t) = Some (take 5 s)" by blast
  moreover from this have "take 5 s = [example_priced 1 ''pdd'', example_priced 5 ''jd'',
      example_priced 10 ''jd'', example_case_jd, example_priced 30 ''pdd'']"
    by (simp add: execute_title_example)
  ultimately show ?thesis using h by blast
qed

lemma list_all_mset: "mset xs = mset ys \<Longrightarrow> list_all P xs = list_all P ys"
  by (metis list_all_iff set_mset_mset)

lemma sort_products_sortable:
  assumes "sortable sort_by ps"
  shows "\<exists>qs. sort_products ps sort_by = Inr qs"
  using sort_products_ascending [OF assms] by blast

lemma well_typed_sortable: "list_all well_typed ps \<Longrightarrow> sortable sort_by ps"
  by (simp add: sortable_def list_all_iff well_typed_def)

lemma price_filter_step_filter:
  "\<exists>P. price_filter_step sc ps = filter P ps"
proof (cases "py_truthy (dict_get (c_max_price sc) PNone)")
  case True
  then have "price_filter_step sc ps =
      filter (\<lambda>p. validate_price (dict_get (price p) (PInt 0)) (dict_get (c_max_price sc) PNone)) ps"
    by (simp add: price_filter_step_def filter_by_price_eq)
  then show ?thesis by blast
next
  case False
  then have "price_filter_step sc ps = filter (\<lambda>p. True) ps"
    by (simp add: price_filter_step_def)
  then show ?thesis by blast
qed

lemma after_price_filter_all:
  "list_all P (dict_get (ft_products task) []) \<Longrightarrow> list_all P (after_price_filter task)"
  using price_filter_step_filter
    [of "dict_get (ft_search_criteria task) empty_criteria" "dict_get (ft_products task) []"]
  by (auto simp: after_price_filter_def list_all_iff)

lemma after_price_filter_length:
  "length (after_price_filter task) \<le> length (dict_get (ft_products task) [])"
  using price_filter_step_filter
    [of "dict_get (ft_search_criteria task) empty_criteria" "dict_get (ft_products task) []"]
  by (auto simp: after_price_filter_def)

lemma after_dedup_length:
  assumes "after_dedup py task = Inr p2"
  shows "length p2 \<le> length (after_price_filter task)"
proof (cases "dict_get (ft_filter_duplicates task) True")
  case True
  with assms have r: "remove_duplicates py (after_price_filter task) = Inr p2"
    by (simp add: after_dedup_def)
  then have "list_all title_is_str (after_price_filter task)"
    using remove_duplicates_not_str [of "after_price_filter task" py] by auto
  with r have "p2 = first_by_key (key_of py) {} (after_price_filter task)"
    by (simp add: remove_duplicates_str)
  then show ?thesis
    using first_by_key_subseq [of "key_of py" "{}" "after_price_filter task"]
    by (simp add: subseq_same_length list_emb_length)
next
  case False
  with assms show ?thesis by (simp add: after_dedup_def)
qed

lemma after_dedup_well_typed:
  assumes "list_all well_typed (after_price_filter task)"
  shows "\<exists>p2. after_dedup py task = Inr p2 \<and> list_all well_typed p2"
proof (cases "dict_get (ft_filter_duplicates task) True")
  case True
  from assms have "list_all title_is_str (after_price_filter task)"
    by (simp add: list_all_iff well_typed_def)
  then have "remove_duplicates py (after_price_filter task)
               = Inr (first_by_key (key_of py) {} (after_price_filter task))"
    by (rule remove_duplicates_str)
  with True assms show ?thesis
    by (simp add: after_dedup_def first_by_key_all)
next
  case False
  with assms show ?thesis by (simp add: after_dedup_def)
qed

lemma analyze_prices_num:
  assumes "list_all price_is_num ps"
  shows "\<exists>a. analyze_prices ps = Inr a"
proof (cases "positive_values ps = []")
  case True
  with analyze_prices_zero [OF assms] show ?thesis by blast
next
  case False
  from analyze_prices_nonzero [OF assms False] show ?thesis by blast
qed

lemma execute_well_typed:
  assumes "list_all well_typed (dict_get (ft_products task) [])"
  shows "fr_status (execute py task) = ''success''"
proof -
  from assms have "list_all well_typed (after_price_filter task)"
    by (rule after_price_filter_all)
  from after_dedup_well_typed [OF this] obtain p2 where
    p2: "after_dedup py task = Inr p2" "list_all well_typed p2" by blast
  from sort_products_sortable [OF well_typed_sortable [OF p2(2)]] obtain p3 where
    p3: "sort_products p2 (dict_get (ft_sort_by task) (PStr ''price'')) = Inr p3" by blast
  from sort_products_mset [OF p3] p2(2) have "list_all well_typed p3"
    by (simp add: list_all_mset [of p3 p2])
  then have num: "list_all price_is_num p3" by (simp add: list_all_iff well_typed_def)
  from analyze_prices_num [OF num] obtain a where a: "analyze_prices p3 = Inr a" by blast
  from find_best_deals_price [OF num, of 5] obtain bd where
    bd: "find_best_deals p3 5 = Inr bd" by blast
  from p2(1) p3 a bd show ?thesis by (simp add: execute_unfold)
qed

lemma execute_failure:
  assumes "fr_status (execute py task) \<noteq> ''success''"
  shows "\<exists>e. execute py task =
            \<lparr>fr_status = ''error'', fr_filtered_products = [],
             fr_original_count = fr_original_count (execute py task),
             fr_filtered_count = 0,
             fr_price_analysis = None, fr_best_deals = None, fr_error = Some e\<rparr>
          \<and> fr_original_count (execute py task) \<le> length (dict_get (ft_products task) [])"
proof (cases py task rule: execute_cases)
  case (dedup e)
  with after_price_filter_length [of task] show ?thesis
    by (simp add: filter_failed_def)
next
  case (sort p2 e)
  with after_dedup_length [of py task p2] after_price_filter_length [of task] show ?thesis
    by (simp add: filter_failed_def)
next
  case (analysis p2 p3 e)
  from sort_products_mset [OF analysis(2)] have "length p3 = length p2" by (metis size_mset)
  with analysis after_dedup_length [of py task p2] after_price_filter_length [of task]
  show ?thesis
    by (simp add: filter_failed_def)
next
  case (deals p2 p3 a e)
  from sort_products_mset [OF deals(2)] have "length p3 = length p2" by (metis size_mset)
  with deals after_dedup_length [of py task p2] after_price_filter_length [of task]
  show ?thesis
    by (simp add: filter_failed_def)
next
  case (success p2 p3 a bd)
  with assms show ?thesis by simp
qed

text \<open>
  C2. A raising step makes \<^verbatim>\<open>FilterAgent.execute\<close> return the error record, but its
  \<^verbatim>\<open>original_count\<close> is the length of the list that the variable \<^verbatim>\<open>products\<close> holds at that
  moment, not the length of the input. Here the price filter has dropped one of two
  products before the deduplication raises on a title that is \<^verbatim>\<open>None\<close>; and the
  deduplication has dropped one of three before the sort raises on a price that is a
  string.
\<close>

theorem execute_error_original_count:
  "execute example_builtins
     (example_task [example_free, example_no_title] (Some (PInt 8999)) ''price'')
   = \<lparr>fr_status = ''error'', fr_filtered_products = [], fr_original_count = 1,
      fr_filtered_count = 0, fr_price_analysis = None, fr_best_deals = None,
      fr_error = Some AttributeError\<rparr>
   \<and> length [example_free, example_no_title] = 2
   \<and> execute example_builtins
     (example_task [example_priced 1 ''jd'', example_priced 1 ''pdd'', example_text_price]
        None ''price'')
   = \<lparr>fr_status = ''error'', fr_filtered_products = [], fr_original_count = 2,
      fr_filtered_count = 0, fr_price_analysis = None, fr_best_deals = None,
      fr_error = Some TypeError\<rparr>
   \<and> length [example_priced 1 ''jd'', example_priced 1 ''pdd'', example_text_price] = 3"
  by (simp add: execute_eval sort_eval string_eval example_task_def
        example_priced_def example_defs)

lemma execute_nonpositive_example:
  "execute example_builtins
     (example_task [example_case_jd, example_free, example_no_price, example_priced 10 ''jd'',
        example_priced (- 3) ''pdd''] None ''price'')
   = \<lparr>fr_status = ''success'',
      fr_filtered_products =
        [example_priced (- 3) ''pdd'', example_free, example_priced 10 ''jd'', example_case_jd,
         example_no_price],
      fr_original_count = 5, fr_filtered_count = 5,
      fr_price_analysis =
        Some \<lparr>pa_count = 2, pa_min = 10, pa_max = 20, pa_average = 15, pa_median = 15,
              pa_by_platform =
                Some [(PStr ''jd'', \<lparr>ps_count = 2, ps_average = 15, ps_min = 10,
                                      ps_max = 20\<rparr>)]\<rparr>,
      fr_best_deals =
        Some [example_priced (- 3) ''pdd'', example_free, example_priced 10 ''jd'',
              example_case_jd, example_no_price],
      fr_error = None\<rparr>"
  by (simp add: execute_eval sort_eval analysis_eval string_eval example_task_def
        example_priced_def example_defs)

text \<open>
  C10. \<^verbatim>\<open>find_best_deals\<close> drops no product for its price: it returns a prefix of all the
  products in ascending order of price, where a missing price stands last and a price
  that is zero or negative stands before every positive one. So with no \<^verbatim>\<open>max_price\<close>
  the best deals can begin with products whose price is not positive, which the price
  analysis does not count.
\<close>

theorem best_deals_keep_nonpositive_prices:
  "(\<forall>ps n bd. list_all price_is_num ps \<and> 0 \<le> n \<and> find_best_deals ps n = Inr bd \<longrightarrow>
       (\<exists>s. mset s = mset ps
          \<and> sorted_wrt (\<lambda>a b. ext_le (price_num a) (price_num b)) s
          \<and> bd = take (nat n) s))
   \<and> fr_best_deals (execute example_builtins
        (example_task [example_case_jd, example_free, example_no_price,
           example_priced 10 ''jd'', example_priced (- 3) ''pdd''] None ''price''))
       = Some [example_priced (- 3) ''pdd'', example_free, example_priced 10 ''jd'',
               example_case_jd, example_no_price]
   \<and> price_num (example_priced (- 3) ''pdd'') = Some (- 3)
   \<and> price_num example_free = Some 0
   \<and> price_num example_no_price = None
   \<and> map_option pa_count (fr_price_analysis (execute example_builtins
        (example_task [example_case_jd, example_free, example_no_price,
           example_priced 10 ''jd'', example_priced (- 3) ''pdd''] None ''price'')))
       = Some 2"
proof -
  have "\<exists>s. mset s = mset ps
          \<and> sorted_wrt (\<lambda>a b. ext_le (price_num a) (price_num b)) s
          \<and> bd = take (nat n) s"
    if "list_all price_is_num ps \<and> 0 \<le> n \<and> find_best_deals ps n = Inr bd" for ps n bd
  proof -
    from that have num: "list_all price_is_num ps" and n: "0 \<le> n"
      and bd: "find_best_deals ps n = Inr bd" by simp_all
    from find_best_deals_price [OF num, of n] bd n show ?thesis
      by (auto simp: slice_to_nonneg)
  qed
  then show ?thesis
    by (simp add: execute_nonpositive_example)
       (simp add: price_num_def example_priced_def example_defs)
qed

theorem best_deals_keep_nonpositive_prices_witness:
  "list_all price_is_num [example_case_jd, example_free, example_no_price]
   \<and> find_best_deals [example_case_jd, example_free, example_no_price] 2
       = Inr [example_free, example_case_jd]
   \<and> (\<exists>s. mset s = mset [example_case_jd, example_free, example_no_price]
          \<and> [example_free, example_case_jd] = take (nat 2) s)"
proof -
  let ?ps = "[example_case_jd, example_free, example_no_price]"
  have h: "list_all price_is_num ?ps"
    by (simp add: price_is_num_def example_defs)
  have e: "find_best_deals ?ps 2 = Inr [example_free, example_case_jd]"
    by (simp add: find_best_deals_def slice_to_def sort_eval example_defs)
  from best_deals_keep_nonpositive_prices h e
  have "\<exists>s. mset s = mset ?ps
          \<and> sorted_wrt (\<lambda>a b. ext_le (price_num a) (price_num b)) s
          \<and> [example_free, example_case_jd] = take (nat 2) s"
    by (metis zero_le_numeral)
  with h e show ?thesis by blast
qed

section \<open>Properties of the coordinator\<close>

lemma map_of_agent_map:
  "map_of (agent_map self) p =
     (if p \<in> {''jd'', ''taobao'', ''pdd''} then Some (agent_for self p) else None)"
  by (simp add: agent_map_def agent_for_def)

lemma create_search_tasks_eq:
  "create_search_tasks (agent_map self) params ps acc =
     acc @ map (\<lambda>p. (p, Run (agent_for self p) params))
             (filter (\<lambda>p. p \<in> {''jd'', ''taobao'', ''pdd''}) ps)"
  by (induction ps arbitrary: acc) (simp_all add: map_of_agent_map del: map_of_eq_None_iff)

lemma sequential_eq: "sequential tasks acc = acc @ map (\<lambda>(p, c). await c) tasks"
  by (induction tasks arbitrary: acc) auto

lemma gather_eq: "gather (map snd tasks) = map (\<lambda>(p, c). await c) tasks"
  by (simp add: gather_def split_def)

lemma collect_results_eq:
  "collect_results tasks (map (\<lambda>(p, c). await c) tasks) d all =
     (fold (\<lambda>(p, c). dict_set p (await c)) tasks d,
      all @ concat (map (\<lambda>(p, c). products_of (await c)) tasks))"
  by (induction tasks arbitrary: d all) (auto simp: products_of_def succeeded_def)

lemma dict_set_pairs:
  "dict_set p (f p) (map (\<lambda>k. (k, f k)) ks) =
     map (\<lambda>k. (k, f k)) (if p \<in> set ks then ks else ks @ [p])"
  by (induction ks) auto

lemma fold_dict_set_pairs:
  "fold (\<lambda>p. dict_set p (f p)) ps (map (\<lambda>k. (k, f k)) ks) =
     map (\<lambda>k. (k, f k)) (ks @ first_by_key (\<lambda>k. k) (set ks) ps)"
proof (induction ps arbitrary: ks)
  case Nil
  show ?case by simp
next
  case (Cons p ps)
  show ?case
  proof (cases "p \<in> set ks")
    case True
    with Cons.IH [of ks] show ?thesis by (simp add: dict_set_pairs)
  next
    case False
    with Cons.IH [of "ks @ [p]"] show ?thesis by (simp add: dict_set_pairs)
  qed
qed

lemma coordinate_unfold:
  "coordinate py self task =
     (let ks = first_by_key (\<lambda>k. k) {} (known_platforms task);
          rbp = map (\<lambda>k. (k, result_of self task k)) ks;
          all_products = concat (map (\<lambda>p. products_of (result_of self task p))
                                   (known_platforms task));
          filter_result = execute py (filter_task_of task all_products)
      in \<lparr>cr_status = ''success'',
          cr_search_criteria = dict_get (ct_search_criteria task) empty_criteria,
          cr_results_by_platform = rbp,
          cr_all_products = all_products,
          cr_filtered_products = fr_filtered_products filter_result,
          cr_best_deals = dict_get (fr_best_deals filter_result) [],
          cr_price_analysis = fr_price_analysis filter_result,
          cr_summary = generate_summary py
             (dict_get (ct_search_criteria task) empty_criteria) rbp filter_result\<rparr>)"
proof -
  let ?tasks = "map (\<lambda>p. (p, Run (agent_for self p) (params_of task))) (known_platforms task)"
  have t: "create_search_tasks (agent_map self) (params_of task)
             (dict_get (ct_platforms task) [''jd'', ''taobao'', ''pdd'']) [] = ?tasks"
    by (simp add: create_search_tasks_eq known_platforms_def)
  have r: "(if dict_get (ct_parallel task) True then gather (map snd ?tasks)
            else sequential ?tasks []) = map (\<lambda>(p, c). await c) ?tasks"
    by (simp add: gather_eq sequential_eq del: map_map)
  have f: "fold (\<lambda>(p, c). dict_set p (await c)) ?tasks [] =
             map (\<lambda>k. (k, result_of self task k)) (first_by_key (\<lambda>k. k) {} (known_platforms task))"
    using fold_dict_set_pairs [of "result_of self task" "known_platforms task" "[]"]
    by (simp add: fold_map comp_def result_of_def)
  have c: "concat (map (\<lambda>(p, c). products_of (await c)) ?tasks) =
             concat (map (\<lambda>p. products_of (result_of self task p)) (known_platforms task))"
    by (simp add: comp_def result_of_def)
  have "collect_results ?tasks (map (\<lambda>(p, c). await c) ?tasks) [] [] =
          (map (\<lambda>k. (k, result_of self task k)) (first_by_key (\<lambda>k. k) {} (known_platforms task)),
           concat (map (\<lambda>p. products_of (result_of self task p)) (known_platforms task)))"
    by (simp only: collect_results_eq f c append_Nil)
  then show ?thesis
    unfolding coordinate_def Let_def
    by (simp only: t r params_of_def [symmetric] filter_task_of_def [symmetric])
       (simp add: params_of_def)
qed

lemma map_of_pairs:
  "map_of (map (\<lambda>k. (k, f k)) ks) q = (if q \<in> set ks then Some (f q) else None)"
  by (induction ks) auto

lemma first_by_key_id_set: "set (first_by_key (\<lambda>k. k) {} ks) = set ks"
  using first_by_key_keys [of "\<lambda>k. k" "{}" ks] by simp

lemma generate_summary_pairs:
  "generate_summary py sc (map (\<lambda>k. (k, f k)) ks) fres =
     \<lparr>total_products_found =
        sum_list (map (\<lambda>k. dict_get (pr_count (f k)) 0) (filter (\<lambda>k. succeeded (f k)) ks)),
      after_filtering = fr_filtered_count fres,
      successful_platforms = filter (\<lambda>k. succeeded (f k)) ks,
      failed_platforms = filter (\<lambda>k. \<not> succeeded (f k)) ks,
      search_query =
        str_strip py (py_str py (dict_get (c_brand sc) (PStr [])) @ '' '' @
                   py_str py (dict_get (c_model sc) (PStr []))),
      max_price = dict_get (c_max_price sc) (PInt 0)\<rparr>"
  by (simp add: generate_summary_def filter_map comp_def succeeded_def)

lemma concat_products_of:
  "concat (map (\<lambda>p. products_of (f p)) ps) =
     concat (map (\<lambda>p. dict_get (pr_products (f p)) [])
               (filter (\<lambda>p. pr_status (f p) = Some ''success'') ps))"
  by (induction ps) (simp_all add: products_of_def succeeded_def)

lemma parallel_irrelevant:
  "known_platforms (task\<lparr>ct_parallel := b\<rparr>) = known_platforms task"
  "params_of (task\<lparr>ct_parallel := b\<rparr>) = params_of task"
  "result_of self (task\<lparr>ct_parallel := b\<rparr>) = result_of self task"
  "filter_task_of (task\<lparr>ct_parallel := b\<rparr>) = filter_task_of task"
  by (simp_all add: known_platforms_def params_of_def result_of_def filter_task_of_def fun_eq_iff)

text \<open>
  C1. The coordinator creates one search task for each requested platform id that is in
  its registry, in the order of the request, and skips the other ids. The product list
  that it hands to the filter agent is the concatenation, in that order, of the products
  of the results whose status is success; the other results contribute nothing, but
  every result is stored in \<^verbatim>\<open>results_by_platform\<close>. The outcome is the same for a
  parallel and for a sequential search.
\<close>

theorem coordinate_all_products:
  "create_search_tasks (agent_map self) (params_of task)
      (dict_get (ct_platforms task) [''jd'', ''taobao'', ''pdd'']) []
     = map (\<lambda>p. (p, Run (agent_for self p) (params_of task))) (known_platforms task)
   \<and> cr_status (coordinate py self task) = ''success''
   \<and> cr_all_products (coordinate py self task)
     = concat (map (\<lambda>p. dict_get (pr_products (result_of self task p)) [])
                 (filter (\<lambda>p. pr_status (result_of self task p) = Some ''success'')
                    (known_platforms task)))
   \<and> cr_results_by_platform (coordinate py self task)
     = map (\<lambda>k. (k, result_of self task k)) (first_by_key (\<lambda>k. k) {} (known_platforms task))
   \<and> set (map fst (cr_results_by_platform (coordinate py self task)))
     = set (known_platforms task)
   \<and> cr_filtered_products (coordinate py self task)
     = fr_filtered_products
         (execute py (filter_task_of task (cr_all_products (coordinate py self task))))
   \<and> coordinate py self (task\<lparr>ct_parallel := Some False\<rparr>)
     = coordinate py self (task\<lparr>ct_parallel := Some True\<rparr>)"
proof -
  have "coordinate py self (task\<lparr>ct_parallel := Some False\<rparr>)
          = coordinate py self (task\<lparr>ct_parallel := Some True\<rparr>)"
    by (simp add: coordinate_unfold parallel_irrelevant)
  moreover have "create_search_tasks (agent_map self) (params_of task)
      (dict_get (ct_platforms task) [''jd'', ''taobao'', ''pdd'']) []
     = map (\<lambda>p. (p, Run (agent_for self p) (params_of task))) (known_platforms task)"
    by (simp add: create_search_tasks_eq known_platforms_def)
  moreover have "cr_status (coordinate py self task) = ''success''"
    by (simp add: coordinate_unfold Let_def)
  moreover have "cr_all_products (coordinate py self task)
     = concat (map (\<lambda>p. dict_get (pr_products (result_of self task p)) [])
                 (filter (\<lambda>p. pr_status (result_of self task p) = Some ''success'')
                    (known_platforms task)))"
    by (simp add: coordinate_unfold Let_def concat_products_of)
  moreover have "cr_results_by_platform (coordinate py self task)
     = map (\<lambda>k. (k, result_of self task k)) (first_by_key (\<lambda>k. k) {} (known_platforms task))"
    by (simp add: coordinate_unfold Let_def)
  moreover from this have "set (map fst (cr_results_by_platform (coordinate py self task)))
     = set (known_platforms task)"
    by (simp add: comp_def first_by_key_id_set)
  moreover have "cr_filtered_products (coordinate py self task)
     = fr_filtered_products
         (execute py (filter_task_of task (cr_all_products (coordinate py self task))))"
    by (simp add: coordinate_unfold Let_def)
  ultimately show ?thesis by (intro conjI)
qed

lemmas coordinate_eval =
  coordinate_def agent_map_def gather_def run_def generate_summary_def

lemma coordinate_example:
  "coordinate example_builtins example_agents example_coordinator_task =
     \<lparr>cr_status = ''success'',
      cr_search_criteria = budget (Some (PInt 8999)),
      cr_results_by_platform =
        [(''pdd'', \<lparr>pr_status = Some ''success'', pr_platform = Some ''pdd'',
                    pr_products = Some [example_priced 20 ''pdd'', example_priced 10 ''pdd''],
                    pr_count = Some 2, pr_error = None, pr_agent = None\<rparr>),
         (''jd'', \<lparr>pr_status = Some ''error'', pr_platform = None, pr_products = None,
                   pr_count = None, pr_error = Some ''Timeout'',
                   pr_agent = Some ''JD_Search_Agent''\<rparr>),
         (''taobao'', \<lparr>pr_status = Some ''success'', pr_platform = Some ''taobao'',
                       pr_products = Some [example_priced 30 ''taobao''],
                       pr_count = Some 1, pr_error = None, pr_agent = None\<rparr>)],
      cr_all_products =
        [example_priced 20 ''pdd'', example_priced 10 ''pdd'', example_priced 30 ''taobao''],
      cr_filtered_products =
        [example_priced 10 ''pdd'', example_priced 20 ''pdd'', example_priced 30 ''taobao''],
      cr_best_deals =
        [example_priced 10 ''pdd'', example_priced 20 ''pdd'', example_priced 30 ''taobao''],
      cr_price_analysis =
        Some \<lparr>pa_count = 3, pa_min = 10, pa_max = 30, pa_average = 20, pa_median = 20,
              pa_by_platform =
                Some [(PStr ''pdd'', \<lparr>ps_count = 2, ps_average = 15, ps_min = 10,
                                       ps_max = 20\<rparr>),
                      (PStr ''taobao'', \<lparr>ps_count = 1, ps_average = 30, ps_min = 30,
                                          ps_max = 30\<rparr>)]\<rparr>,
      cr_summary =
        \<lparr>total_products_found = 3, after_filtering = 3,
         successful_platforms = [''pdd'', ''taobao''], failed_platforms = [''jd''],
         search_query = ''Apple iPhone 15 Pro'', max_price = PInt 8999\<rparr>\<rparr>"
  by (simp add: coordinate_eval execute_eval sort_eval analysis_eval string_eval
        example_coordinator_task_def example_agents_def example_ok_agent_def
        example_failing_agent_def example_priced_def example_defs)

theorem coordinate_all_products_witness:
  "known_platforms example_coordinator_task = [''pdd'', ''jd'', ''taobao'']
   \<and> filter (\<lambda>p. pr_status (result_of example_agents example_coordinator_task p)
                   = Some ''success'') (known_platforms example_coordinator_task)
       = [''pdd'', ''taobao'']
   \<and> cr_all_products (coordinate example_builtins example_agents example_coordinator_task)
     = concat (map (\<lambda>p. dict_get
                       (pr_products (result_of example_agents example_coordinator_task p)) [])
                 [''pdd'', ''taobao''])
   \<and> cr_all_products (coordinate example_builtins example_agents example_coordinator_task)
     = [example_priced 20 ''pdd'', example_priced 10 ''pdd'', example_priced 30 ''taobao'']"
proof -
  have k: "known_platforms example_coordinator_task = [''pdd'', ''jd'', ''taobao'']"
    by (simp add: known_platforms_def example_coordinator_task_def dict_get_def)
  have f: "filter (\<lambda>p. pr_status (result_of example_agents example_coordinator_task p)
                   = Some ''success'') [''pdd'', ''jd'', ''taobao''] = [''pdd'', ''taobao'']"
    by (simp add: result_of_def run_def agent_for_def example_agents_def
          example_ok_agent_def example_failing_agent_def)
  from coordinate_all_products [of example_agents example_coordinator_task example_builtins]
  have "cr_all_products (coordinate example_builtins example_agents example_coordinator_task)
     = concat (map (\<lambda>p. dict_get
                       (pr_products (result_of example_agents example_coordinator_task p)) [])
                 (filter (\<lambda>p. pr_status (result_of example_agents example_coordinator_task p)
                               = Some ''success'')
                    (known_platforms example_coordinator_task)))"
    by blast
  with k f show ?thesis by (simp add: coordinate_example)
qed

text \<open>
  C7. When the \<^verbatim>\<open>execute\<close> of the agent of a requested platform raises,
  \<^verbatim>\<open>BaseAgent.run\<close> turns the exception into a result with status error that carries the
  message. The coordinator still returns status success; every requested platform has
  the result of its own agent; the summary lists the platform among the failed ones and
  not among the successful ones, which are the platforms whose result has status
  success; and the total is the sum of \<^verbatim>\<open>count\<close> over the successful results.
\<close>

theorem coordinate_provider_failure:
  assumes "p \<in> set (known_platforms task)"
    and "agent_execute (agent_for self p) (params_of task) = Inl msg"
  shows "cr_status (coordinate py self task) = ''success''
    \<and> map_of (cr_results_by_platform (coordinate py self task)) p
      = Some \<lparr>pr_status = Some ''error'', pr_platform = None, pr_products = None,
              pr_count = None, pr_error = Some msg,
              pr_agent = Some (agent_name (agent_for self p))\<rparr>
    \<and> p \<in> set (failed_platforms (cr_summary (coordinate py self task)))
    \<and> p \<notin> set (successful_platforms (cr_summary (coordinate py self task)))
    \<and> list_all (\<lambda>q. map_of (cr_results_by_platform (coordinate py self task)) q
                     = Some (run (agent_for self q) (params_of task)))
         (known_platforms task)
    \<and> successful_platforms (cr_summary (coordinate py self task))
      = filter (\<lambda>q. pr_status (run (agent_for self q) (params_of task)) = Some ''success'')
          (first_by_key (\<lambda>k. k) {} (known_platforms task))
    \<and> failed_platforms (cr_summary (coordinate py self task))
      = filter (\<lambda>q. pr_status (run (agent_for self q) (params_of task)) \<noteq> Some ''success'')
          (first_by_key (\<lambda>k. k) {} (known_platforms task))
    \<and> total_products_found (cr_summary (coordinate py self task))
      = sum_list (map (\<lambda>q. dict_get (pr_count (run (agent_for self q) (params_of task))) 0)
          (filter (\<lambda>q. pr_status (run (agent_for self q) (params_of task)) = Some ''success'')
             (first_by_key (\<lambda>k. k) {} (known_platforms task))))"
proof -
  have r: "run (agent_for self p) (params_of task)
             = \<lparr>pr_status = Some ''error'', pr_platform = None, pr_products = None,
                pr_count = None, pr_error = Some msg,
                pr_agent = Some (agent_name (agent_for self p))\<rparr>"
    using assms(2) by (simp add: run_def)
  then have ns: "\<not> succeeded (result_of self task p)"
    by (simp add: succeeded_def result_of_def)
  from assms(1) have pk: "p \<in> set (first_by_key (\<lambda>k. k) {} (known_platforms task))"
    by (simp add: first_by_key_id_set)
  have l: "list_all (\<lambda>q. map_of (cr_results_by_platform (coordinate py self task)) q
                     = Some (run (agent_for self q) (params_of task)))
         (known_platforms task)"
    by (simp add: coordinate_unfold Let_def map_of_pairs first_by_key_id_set list_all_iff
          result_of_def)
  with assms(1) r have m: "map_of (cr_results_by_platform (coordinate py self task)) p
      = Some \<lparr>pr_status = Some ''error'', pr_platform = None, pr_products = None,
              pr_count = None, pr_error = Some msg,
              pr_agent = Some (agent_name (agent_for self p))\<rparr>"
    by (simp add: list_all_iff)
  from ns pk l m show ?thesis
    by (simp add: coordinate_unfold Let_def generate_summary_pairs)
       (simp add: succeeded_def result_of_def)
qed

theorem coordinate_provider_failure_witness:
  "''jd'' \<in> set (known_platforms example_coordinator_task)
   \<and> agent_execute (agent_for example_agents ''jd'') (params_of example_coordinator_task)
       = Inl ''Timeout''
   \<and> cr_status (coordinate example_builtins example_agents example_coordinator_task) = ''success''
   \<and> failed_platforms (cr_summary
        (coordinate example_builtins example_agents example_coordinator_task)) = [''jd'']
   \<and> successful_platforms (cr_summary
        (coordinate example_builtins example_agents example_coordinator_task))
       = [''pdd'', ''taobao'']
   \<and> total_products_found (cr_summary
        (coordinate example_builtins example_agents example_coordinator_task)) = 3
   \<and> ''jd'' \<notin> set (successful_platforms (cr_summary
        (coordinate example_builtins example_agents example_coordinator_task)))"
proof -
  have h1: "''jd'' \<in> set (known_platforms example_coordinator_task)"
    by (simp add: known_platforms_def example_coordinator_task_def dict_get_def)
  have h2: "agent_execute (agent_for example_agents ''jd'') (params_of example_coordinator_task)
       = Inl ''Timeout''"
    by (simp add: agent_for_def example_agents_def example_failing_agent_def)
  from coordinate_provider_failure [OF h1 h2, of example_builtins]
  have "''jd'' \<notin> set (successful_platforms (cr_summary
        (coordinate example_builtins example_agents example_coordinator_task)))"
    by blast
  with h1 h2 show ?thesis by (simp add: coordinate_example)
qed

end
